theory Spec2Isabelle
  imports Main "HOL-Library.Word"
begin

unbundle bit_operations_syntax

section \<open>Access-control bitmask (package cmn)\<close>

text \<open>
  The access bits are declared with \<^verbatim>\<open>1 << iota\<close>; \<^verbatim>\<open>AccessAttrs\<close> is a
  \<^verbatim>\<open>uint64\<close>, modelled as a 64-bit word.
\<close>

type_synonym uint64 = "64 word"

definition AccessGET :: uint64 where "AccessGET = push_bit 0 1"
definition AccessObjHEAD :: uint64 where "AccessObjHEAD = push_bit 1 1"
definition AccessPUT :: uint64 where "AccessPUT = push_bit 2 1"
definition AccessAPPEND :: uint64 where "AccessAPPEND = push_bit 3 1"
definition AccessDownload :: uint64 where "AccessDownload = push_bit 4 1"
definition AccessObjDELETE :: uint64 where "AccessObjDELETE = push_bit 5 1"
definition AccessObjRENAME :: uint64 where "AccessObjRENAME = push_bit 6 1"
definition AccessPROMOTE :: uint64 where "AccessPROMOTE = push_bit 7 1"
definition AccessBckHEAD :: uint64 where "AccessBckHEAD = push_bit 8 1"
definition AccessObjLIST :: uint64 where "AccessObjLIST = push_bit 9 1"
definition AccessBckRENAME :: uint64 where "AccessBckRENAME = push_bit 10 1"
definition AccessPATCH :: uint64 where "AccessPATCH = push_bit 11 1"
definition AccessMAKENCOPIES :: uint64 where "AccessMAKENCOPIES = push_bit 12 1"
definition AccessEC :: uint64 where "AccessEC = push_bit 13 1"
definition AccessSYNC :: uint64 where "AccessSYNC = push_bit 14 1"
definition AccessBckDELETE :: uint64 where "AccessBckDELETE = push_bit 15 1"
definition AccessBckCreate :: uint64 where "AccessBckCreate = push_bit 16 1"
definition AccessBckLIST :: uint64 where "AccessBckLIST = push_bit 17 1"
definition AccessADMIN :: uint64 where "AccessADMIN = push_bit 18 1"
definition AccessMax :: uint64 where "AccessMax = push_bit 19 1"

definition allowAllAccess :: uint64 where "allowAllAccess = NOT 0"

definition AllowAccess :: string where "AllowAccess = ''allow''"
definition DenyAccess :: string where "DenyAccess = ''deny''"

text \<open>
  \<^verbatim>\<open>accessOp\<close> is a Go map from access bit to operation name. The source has no entry
  for \<^verbatim>\<open>AccessBckLIST\<close>; reading a missing key of a Go map yields the empty string.
\<close>

definition accessOp_entries :: "(uint64 \<times> string) list" where
  "accessOp_entries =
    [(AccessGET, ''GET''),
     (AccessObjHEAD, ''HEAD-OBJECT''),
     (AccessPUT, ''PUT''),
     (AccessAPPEND, ''APPEND''),
     (AccessDownload, ''DOWNLOAD''),
     (AccessObjDELETE, ''DELETE-OBJECT''),
     (AccessObjRENAME, ''RENAME-OBJECT''),
     (AccessPROMOTE, ''PROMOTE''),
     (AccessBckHEAD, ''HEAD-BUCKET''),
     (AccessObjLIST, ''LIST-OBJECTS''),
     (AccessBckRENAME, ''RENAME-BUCKET''),
     (AccessPATCH, ''PATCH''),
     (AccessMAKENCOPIES, ''MAKE-NCOPIES''),
     (AccessEC, ''EC''),
     (AccessSYNC, ''SYNC-BUCKET''),
     (AccessBckDELETE, ''DELETE-BUCKET''),
     (AccessBckCreate, ''CREATE-BUCKET''),
     (AccessADMIN, ''ADMIN'')]"

definition accessOp :: "uint64 \<Rightarrow> string" where
  "accessOp k = (case map_of accessOp_entries k of Some s \<Rightarrow> s | None \<Rightarrow> [])"

text \<open>\<^verbatim>\<open>strings.Join(elems, sep)\<close>.\<close>

fun strings_Join :: "string list \<Rightarrow> string \<Rightarrow> string" where
  "strings_Join [] sep = []"
| "strings_Join [x] sep = x"
| "strings_Join (x # y # ys) sep = x @ sep @ strings_Join (y # ys) sep"

text \<open>
  One \<^verbatim>\<open>if aattrs&bit == bit { accList = append(accList, accessOp[bit]) }\<close> statement of
  \<^verbatim>\<open>accessToStr\<close>.
\<close>

definition appendIfSet :: "uint64 \<Rightarrow> uint64 \<Rightarrow> string list \<Rightarrow> string list" where
  "appendIfSet aattrs b accList =
     (if aattrs AND b = b then accList @ [accessOp b] else accList)"

text \<open>
  The list \<^verbatim>\<open>accList\<close> that \<^verbatim>\<open>accessToStr\<close> has built when it reaches its final
  \<^verbatim>\<open>strings.Join\<close>: fifteen tests, in the order of the source. There is no test for
  \<^verbatim>\<open>AccessEC\<close>, \<^verbatim>\<open>AccessBckCreate\<close>, \<^verbatim>\<open>AccessBckLIST\<close> or \<^verbatim>\<open>AccessADMIN\<close>.
\<close>

definition accessToStr_accList :: "uint64 \<Rightarrow> string list" where
  "accessToStr_accList aattrs =
    (appendIfSet aattrs AccessBckDELETE
    (appendIfSet aattrs AccessSYNC
    (appendIfSet aattrs AccessMAKENCOPIES
    (appendIfSet aattrs AccessPATCH
    (appendIfSet aattrs AccessBckRENAME
    (appendIfSet aattrs AccessObjLIST
    (appendIfSet aattrs AccessBckHEAD
    (appendIfSet aattrs AccessPROMOTE
    (appendIfSet aattrs AccessObjRENAME
    (appendIfSet aattrs AccessObjDELETE
    (appendIfSet aattrs AccessDownload
    (appendIfSet aattrs AccessAPPEND
    (appendIfSet aattrs AccessPUT
    (appendIfSet aattrs AccessObjHEAD
    (appendIfSet aattrs AccessGET [])))))))))))))))"

definition accessToStr :: "uint64 \<Rightarrow> string" where
  "accessToStr aattrs =
     (if aattrs = 0 then ''No access''
      else strings_Join (accessToStr_accList aattrs) '','')"

text \<open>
  \<^verbatim>\<open>ModifyAccess\<close> returns a pair \<^verbatim>\<open>(uint64, error)\<close>; the error is
  \<^verbatim>\<open>fmt.Errorf("unknown make-access action %q", action)\<close>.
\<close>

datatype cmn_error = UnknownMakeAccessAction string

definition ModifyAccess :: "uint64 \<Rightarrow> string \<Rightarrow> uint64 \<Rightarrow> uint64 \<times> cmn_error option" where
  "ModifyAccess aattr action bits =
     (if action = AllowAccess then (aattr OR bits, None)
      else if action \<noteq> DenyAccess then (0, Some (UnknownMakeAccessAction action))
      else (aattr AND (allowAllAccess XOR bits), None))"


text \<open>
  Two masks used to state properties of \<^verbatim>\<open>accessToStr\<close>: the three cluster-level bits,
  and the four bits below \<^verbatim>\<open>AccessMax\<close> that \<^verbatim>\<open>accessToStr\<close> has no test for.
\<close>

definition clusterBits :: uint64 where
  "clusterBits = AccessBckCreate OR AccessBckLIST OR AccessADMIN"

definition uncheckedBits :: uint64 where
  "uncheckedBits = AccessEC OR AccessBckCreate OR AccessBckLIST OR AccessADMIN"


section \<open>Rebalance: node-to-node status probe (package reb)\<close>

text \<open>
  \<^verbatim>\<open>Status\<close> is what a peer answers to \<^verbatim>\<open>GET /health?reb-status=true\<close>. The fields that
  \<^verbatim>\<open>checkGlobStatus\<close> and its callers read are modelled; \<^verbatim>\<open>Targets\<close> holds the IDs of
  the nodes, \<^verbatim>\<open>Stats\<close> is left out. The \<^verbatim>\<open>int64\<close> identifiers are only compared, never
  computed with, so they are integers.
\<close>

record Status =
  Targets :: "string list"
  SmapVersion :: int
  RebVersion :: int
  RebID :: int
  Stage :: nat
  Aborted :: bool
  Running :: bool
  Quiescent :: bool

text \<open>
  The part of \<^verbatim>\<open>Reb\<close> that \<^verbatim>\<open>checkGlobStatus\<close> reads and changes: the ID of the local
  round (\<^verbatim>\<open>reb.rebID\<close>, also returned by \<^verbatim>\<open>reb.RebID()\<close>), whether the local rebalance
  xaction is aborted, and how many abort broadcasts this target has sent to its peers.
\<close>

record Reb =
  rebID :: int
  xaborted :: bool
  abortBcasts :: nat

text \<open>
  Modelled from the spec: \<^verbatim>\<open>reb.abortAndBroadcast()\<close> is called by \<^verbatim>\<open>checkGlobStatus\<close> but
  its body is not part of the sources. The spec (4.5, epoch rules) describes it: the local
  round is aborted and the abort is broadcast to all peers.
\<close>

definition abortAndBroadcast :: "Reb \<Rightarrow> Reb" where
  "abortAndBroadcast reb = reb\<lparr>xaborted := True, abortBcasts := Suc (abortBcasts reb)\<rparr>"

text \<open>
  Modelled from the spec: \<^verbatim>\<open>xreb.Abort(nil)\<close> of package xact, not part of the sources. The
  spec (4.5, Abort): a single call sets the round's Aborted flag; nothing is sent to peers.
\<close>

definition xreb_Abort :: "Reb \<Rightarrow> Reb" where
  "xreb_Abort reb = reb\<lparr>xaborted := True\<rparr>"

text \<open>
  \<^verbatim>\<open>checkGlobStatus(tsi, desiredStage, md)\<close>. What the peer and the surroundings answer is
  given as arguments:
  \<^item> \<open>health1\<close>: the first \<^verbatim>\<open>reb.t.Health\<close> call, \<open>Inl\<close> an error, \<open>Inr\<close> the body;
  \<^item> \<open>abortedAfter\<close>: \<^verbatim>\<open>reb.xctn().AbortedAfter(sleepRetry)\<close> returned an error;
  \<^item> \<open>health2\<close>: the retried \<^verbatim>\<open>Health\<close> call (made only after a first error);
  \<^item> \<open>unmarshal\<close>: \<^verbatim>\<open>jsoniter.Unmarshal(body, status)\<close>, giving the status as filled in
    and the error, if any.
  The result is the \<^verbatim>\<open>Reb\<close> after the call, the returned \<^verbatim>\<open>status\<close> pointer (\<open>None\<close> for
  nil) and \<^verbatim>\<open>ok\<close>. Logging is left out, and so is the \<^verbatim>\<open>debug.Assert\<close>.
\<close>

definition checkGlobStatus ::
  "('b \<Rightarrow> Status \<times> 'e option) \<Rightarrow> 'e + 'b \<Rightarrow> bool \<Rightarrow> 'e + 'b \<Rightarrow> nat \<Rightarrow> Reb
     \<Rightarrow> Reb \<times> Status option \<times> bool" where
  "checkGlobStatus unmarshal health1 abortedAfter health2 desiredStage reb =
    (case (case health1 of
             Inl err \<Rightarrow> if abortedAfter then None else Some health2
           | Inr body \<Rightarrow> Some health1) of
       None \<Rightarrow> (reb, None, False)
     | Some (Inl err) \<Rightarrow> (abortAndBroadcast reb, None, False)
     | Some (Inr body) \<Rightarrow>
        (case unmarshal body of
           (status, Some err) \<Rightarrow> (abortAndBroadcast reb, Some status, False)
         | (status, None) \<Rightarrow>
            if RebID status > rebID reb then (abortAndBroadcast reb, Some status, False)
            else if RebID status < rebID reb then (reb, Some status, False)
            else if RebID status = rebID reb \<and> Aborted status
              then (xreb_Abort reb, Some status, False)
            else if Stage status \<ge> desiredStage then (reb, Some status, True)
            else (reb, Some status, False)))"


section \<open>Cluster map and metadata (packages cluster and ais)\<close>

text \<open>
  Modelled from the spec: the declarations of \<^verbatim>\<open>cluster.Snode\<close>, \<^verbatim>\<open>smapX\<close>, \<^verbatim>\<open>rebMD\<close> and
  \<^verbatim>\<open>bucketMD\<close> are not part of the sources. The spec (3, data model) gives their fields: a
  node has an ID, three network endpoints, a role and a bitmask of flags; the cluster map has
  a version, a UUID, the primary and two maps from ID to node; the rebalance descriptor has a
  version, target IDs and a resilver flag; the bucket map is opaque but for UUID and version.
  In the source \<^verbatim>\<open>smap.Primary\<close> is a node (\<^verbatim>\<open>clone.Primary = psi\<close>).
\<close>

datatype daemonType = Proxy | Target

record NetInfo =
  NodeHostname :: string
  DaemonPort :: string
  DirectURL :: string

record Snode =
  DaemonID :: string
  DaeType :: daemonType
  PublicNet :: NetInfo
  IntraControlNet :: NetInfo
  IntraDataNet :: NetInfo
  Flags :: uint64

record smapX =
  Version :: int
  UUID :: string
  Primary :: "Snode option"
  Pmap :: "string \<rightharpoonup> Snode"
  Tmap :: "string \<rightharpoonup> Snode"

record rebMD =
  RMD_Version :: int
  TargetIDs :: "string list"
  Resilver :: bool

record bucketMD =
  BMD_Version :: int
  BMD_UUID :: string

definition SnodeID :: "Snode \<Rightarrow> string" where
  "SnodeID d = DaemonID d"

definition IsProxy :: "Snode \<Rightarrow> bool" where
  "IsProxy d = (DaeType d = Proxy)"

definition IsTarget :: "Snode \<Rightarrow> bool" where
  "IsTarget d = (DaeType d = Target)"

text \<open>
  Modelled from the spec: \<^verbatim>\<open>Snode.Equals\<close> is not part of the sources. The spec (3):
  equality compares ID and endpoints.
\<close>

definition Equals :: "Snode \<Rightarrow> Snode \<Rightarrow> bool" where
  "Equals d other =
     (SnodeID d = SnodeID other \<and> PublicNet d = PublicNet other \<and>
      IntraControlNet d = IntraControlNet other \<and> IntraDataNet d = IntraDataNet other)"

text \<open>
  Modelled from the spec: the lookups of the cluster map are not part of the sources. By the
  spec (3) \<^verbatim>\<open>Proxies\<close> and \<^verbatim>\<open>Targets\<close> are maps from ID to node and no node is in both;
  the primary is the one proxy whose ID the map names.
\<close>

definition GetProxy :: "smapX \<Rightarrow> string \<Rightarrow> Snode option" where
  "GetProxy m pid = Pmap m pid"

definition GetTarget :: "smapX \<Rightarrow> string \<Rightarrow> Snode option" where
  "GetTarget m tid = Tmap m tid"

definition GetNode :: "smapX \<Rightarrow> string \<Rightarrow> Snode option" where
  "GetNode m nid = (case GetTarget m nid of Some t \<Rightarrow> Some t | None \<Rightarrow> GetProxy m nid)"

definition isPrimary :: "smapX \<Rightarrow> Snode \<Rightarrow> bool" where
  "isPrimary m self =
     (case Primary m of None \<Rightarrow> False | Some psi \<Rightarrow> SnodeID psi = SnodeID self)"

text \<open>
  Modelled from the spec: \<^verbatim>\<open>rebMD.inc\<close> is not part of the sources; the spec (4.4) says a
  required rebalance increments the RMD version.
\<close>

definition rebMD_inc :: "rebMD \<Rightarrow> rebMD" where
  "rebMD_inc m = m\<lparr>RMD_Version := RMD_Version m + 1\<rparr>"

text \<open>
  The rest of what the handlers call outside the sources is taken as given: the mutators and
  predicates of the cluster map, the rebalance-required predicate, validation, the probe
  for a duplicate daemon, and the constants whose values the spec does not give. An error
  of one of them is its message.
\<close>

record ext =
  putNode :: "Snode \<Rightarrow> uint64 \<Rightarrow> smapX \<Rightarrow> smapX \<times> bool"
  delProxy :: "string \<Rightarrow> smapX \<Rightarrow> smapX"
  delTarget :: "string \<Rightarrow> smapX \<Rightarrow> smapX"
  clearNodeFlags :: "string \<Rightarrow> uint64 \<Rightarrow> smapX \<Rightarrow> smapX"
  staffIC :: "smapX \<Rightarrow> smapX"
  PresentInMaint :: "smapX \<Rightarrow> Snode \<Rightarrow> bool"
  IsDuplicate :: "smapX \<Rightarrow> Snode \<Rightarrow> string option"
  smap_validateUUID :: "smapX \<Rightarrow> smapX option \<Rightarrow> Snode \<Rightarrow> Snode \<Rightarrow> string option"
  bmd_validateUUID :: "bucketMD \<Rightarrow> bucketMD option \<Rightarrow> Snode \<Rightarrow> Snode \<Rightarrow> string option"
  requiresRebalance :: "smapX option \<Rightarrow> smapX \<Rightarrow> bool"
  detectDaemonDuplicate :: "Snode \<Rightarrow> Snode \<Rightarrow> bool"
  Validate :: "Snode \<Rightarrow> string option"
  validateHostname :: "string \<Rightarrow> string option"
  IsErrConnectionRefused :: "string \<Rightarrow> bool"
  SnodeNonElectable :: uint64
  SnodeMaintenanceMask :: uint64
  ActRegTarget :: string
  ActRegProxy :: string
  ActStartGFN :: string

text \<open>
  Modelled from the spec: the string constants of package cmn are not part of the sources.
  The spec (6) names the verbs of \<^verbatim>\<open>POST /v1/cluster\<close> (user-register, keepalive, autoreg)
  and the actions (shutdown, shutdown-node, start-maintenance, decommission).
  \<^verbatim>\<open>testInitiatedRm\<close> is declared in the source, and the two status codes are those of
  \<^verbatim>\<open>net/http\<close>.
\<close>

definition UserRegister :: string where "UserRegister = ''user-register''"
definition Keepalive :: string where "Keepalive = ''keepalive''"
definition AutoRegister :: string where "AutoRegister = ''autoreg''"
definition ActShutdown :: string where "ActShutdown = ''shutdown''"
definition ActShutdownNode :: string where "ActShutdownNode = ''shutdown-node''"
definition ActStartMaintenance :: string where "ActStartMaintenance = ''start-maintenance''"
definition ActDecommission :: string where "ActDecommission = ''decommission''"
definition testInitiatedRm :: string where "testInitiatedRm = ''test-initiated-removal''"
definition StatusNotFound :: nat where "StatusNotFound = 404"
definition StatusServiceUnavailable :: nat where "StatusServiceUnavailable = 503"

record ActionMsg =
  Action :: string

record nodeRegMeta =
  reg_Smap :: "smapX option"
  reg_BMD :: "bucketMD option"
  reg_SI :: Snode
  reg_Reb :: bool

text \<open>Errors that the handlers build, one constructor for each message of the source.\<close>

datatype perr =
    ErrExternal string
  | ErrNotPrimaryJoin string Snode
  | ErrNotPrimaryAdd "Snode option"
  | ErrNotPrimaryRemove string
  | ErrNotPrimaryCancelMaint string
  | ErrNodeNotFound string string
  | ErrWithSelfPrefix string
  | ErrFailedToReach Snode
  | ErrFailedTo string Snode string string
  | ErrInvalidURLPath string
  | ErrHostname string Snode string
  | ErrDuplicateNodeID string Snode Snode
  | ErrExpectingSelfRemoval string string
  | ErrNewPrimaryNotPresent string
  | ErrPrimaryUnderMaintenance Snode
  | ErrPreparePhase string string Snode

text \<open>What a handler writes to the response: an error with an optional status code, or data.\<close>

datatype reply =
    InvalMsg perr "nat option"
  | WriteJSON nodeRegMeta
  | WriteRebID int

datatype revs = RevSmap smapX | RevBMD bucketMD | RevRMD rebMD | RevTokens "string list"

datatype callReq = ReqUserReg | ReqShutdown | ReqUnreg | ReqNone

text \<open>
  The effects of the handlers on the rest of the proxy, recorded in the order they happen:
  calls to \<^verbatim>\<open>p.owner.smap.modify\<close> and \<^verbatim>\<open>put\<close>, to \<^verbatim>\<open>p.owner.rmd.modify\<close>, stores to
  \<^verbatim>\<open>inPrimaryTransition\<close>, calls of the metasyncer, notifications, the keepalive tracker,
  broadcasts (\<^verbatim>\<open>PUT /daemon/proxy/{id}?prepare=\<close>), calls to one node, and so on.
\<close>

datatype event =
    SmapModify
  | SmapPut
  | RmdModify
  | StoreInPrimaryTransition bool
  | BecomeNonPrimary
  | MetasyncNotify "ActionMsg" smapX
  | MetasyncSync "ActionMsg option" "revs list"
  | NotifsAdd int
  | HeardFrom string bool
  | Bcast string bool
  | CallNode Snode callReq
  | RproxyDelete string
  | StatsAddPostCount
  | SyncNewICOwners
  | AssertFailed
  | ExitLog

record proxyrunner =
  si :: Snode
  owner_smap :: smapX
  owner_rmd :: rebMD
  owner_bmd :: bucketMD
  rmd_rebalance :: bool
  inPrimaryTransition :: bool
  NodeStarted :: bool
  ClusterStarted :: bool
  reg_pool :: "nodeRegMeta list"
  revokedTokens :: "string list"
  trace :: "event list"

definition emit :: "event \<Rightarrow> proxyrunner \<Rightarrow> proxyrunner" where
  "emit e p = p\<lparr>trace := trace p @ [e]\<rparr>"

text \<open>
  \<^verbatim>\<open>smapModifier\<close>: the fields of the context that the callbacks read and write. The
  callbacks themselves (\<^verbatim>\<open>pre\<close>, \<^verbatim>\<open>post\<close>, \<^verbatim>\<open>final\<close>) are the arguments of \<open>smap_modify\<close>.
\<close>

record smapModifier =
  smap :: "smapX option"
  rmd :: "rebMD option"
  msg :: "ActionMsg option"
  nsi :: "Snode option"
  sid :: string
  flags :: uint64
  status :: nat
  exists :: bool
  skipReb :: bool

definition smapModifier0 :: smapModifier where
  "smapModifier0 =
     \<lparr>smap = None, rmd = None, msg = None, nsi = None, sid = [], flags = 0, status = 0,
      exists = False, skipReb = False\<rparr>"

type_synonym preCB = "smapModifier \<Rightarrow> smapX \<Rightarrow> proxyrunner \<Rightarrow> proxyrunner \<times> smapModifier \<times> smapX \<times> perr option"
type_synonym postCB = "smapModifier \<Rightarrow> smapX \<Rightarrow> proxyrunner \<Rightarrow> proxyrunner \<times> smapModifier"
type_synonym finalCB = "smapModifier \<Rightarrow> smapX \<Rightarrow> proxyrunner \<Rightarrow> proxyrunner"

text \<open>
  Modelled from the spec: \<^verbatim>\<open>smapOwner.modify\<close> is not part of the sources. The spec (4.2):
  it clones the current snapshot, runs \<^verbatim>\<open>ctx.pre(clone)\<close>, installs the clone iff \<^verbatim>\<open>pre\<close>
  returned no error, then runs \<^verbatim>\<open>ctx.post(clone)\<close> and \<^verbatim>\<open>ctx.final(clone)\<close>. The callbacks
  read the snapshot that was current as \<^verbatim>\<open>ctx.smap\<close>. A callback that is nil is not run.
\<close>

definition smap_modify ::
  "preCB \<Rightarrow> postCB option \<Rightarrow> finalCB option \<Rightarrow> smapModifier \<Rightarrow> proxyrunner
     \<Rightarrow> proxyrunner \<times> smapModifier \<times> perr option" where
  "smap_modify pre post final ctx p =
    (let p0 = emit SmapModify p;
         ctx0 = ctx\<lparr>smap := Some (owner_smap p0)\<rparr>
     in case pre ctx0 (owner_smap p0) p0 of
          (p1, ctx1, clone, Some err) \<Rightarrow> (p1, ctx1, Some err)
        | (p1, ctx1, clone, None) \<Rightarrow>
           (let p2 = p1\<lparr>owner_smap := clone\<rparr>;
                (p3, ctx3) = (case post of None \<Rightarrow> (p2, ctx1) | Some f \<Rightarrow> f ctx1 clone p2);
                p4 = (case final of None \<Rightarrow> p3 | Some g \<Rightarrow> g ctx3 clone p3)
            in (p4, ctx3, None)))"

text \<open>
  Modelled from the spec: \<^verbatim>\<open>rmdOwner.modify\<close> is not part of the sources. As for the cluster
  map (spec 3, lifecycle): the current descriptor is cloned, \<^verbatim>\<open>pre\<close> changes the clone, the
  clone is installed and returned.
\<close>

definition rmd_modify :: "(rebMD \<Rightarrow> rebMD) \<Rightarrow> proxyrunner \<Rightarrow> proxyrunner \<times> rebMD" where
  "rmd_modify pre p =
     (let clone = pre (owner_rmd p) in (emit RmdModify (p\<lparr>owner_rmd := clone\<rparr>), clone))"


section \<open>Joins and keepalives (\<^verbatim>\<open>POST /v1/cluster\<close>)\<close>

text \<open>
  \<^verbatim>\<open>addOrUpdateNode(nsi, osi, keepalive)\<close>; \<open>osi\<close> is \<open>None\<close> for nil. The only effect is
  the call of \<^verbatim>\<open>p.keepalive.heardFrom\<close>.
\<close>

definition addOrUpdateNode ::
  "ext \<Rightarrow> Snode \<Rightarrow> Snode option \<Rightarrow> bool \<Rightarrow> proxyrunner \<Rightarrow> proxyrunner \<times> bool" where
  "addOrUpdateNode x nsi' osi keepalive p =
    (if keepalive then
       (case osi of
          None \<Rightarrow> (p, True)
        | Some old \<Rightarrow>
           if \<not> Equals old nsi' then
             (if detectDaemonDuplicate x old nsi' then (p, False) else (p, True))
           else (emit (HeardFrom (SnodeID nsi') (\<not> keepalive)) p, False))
     else
       (case osi of
          Some old \<Rightarrow>
           if \<not> NodeStarted p then (p, True)
           else if Equals old nsi' then (p, False)
           else (p, True)
        | None \<Rightarrow> (p, True)))"

text \<open>
  \<^verbatim>\<open>handleJoinKalive(nsi, regSmap, tag, keepalive, flags)\<close>, called with the lock of the
  cluster map held; it returns \<^verbatim>\<open>(smap, update, err)\<close>.
\<close>

definition handleJoinKalive ::
  "ext \<Rightarrow> Snode \<Rightarrow> smapX option \<Rightarrow> string \<Rightarrow> bool \<Rightarrow> uint64 \<Rightarrow> proxyrunner
     \<Rightarrow> proxyrunner \<times> smapX \<times> bool \<times> perr option" where
  "handleJoinKalive x nsi' regSmap tag keepalive flags' p =
    (let smap' = owner_smap p in
     if \<not> isPrimary smap' (si p) then (p, smap', False, Some (ErrNotPrimaryJoin tag nsi'))
     else
       (let (p1, proceed) =
              (if IsProxy nsi' then
                 addOrUpdateNode x nsi' (GetProxy smap' (SnodeID nsi')) keepalive p
               else if keepalive then
                 addOrUpdateNode x nsi' (GetTarget smap' (SnodeID nsi')) keepalive p
               else (p, True))
        in if \<not> proceed then (p1, smap', False, None)
           else
             (case smap_validateUUID x smap' regSmap (si p1) nsi' of
                Some err \<Rightarrow> (p1, smap', False, Some (ErrExternal err))
              | None \<Rightarrow>
                 if \<not> ClusterStarted p1 then
                   (let clone = fst (putNode x nsi' flags' smap')
                    in (emit SmapPut (p1\<lparr>owner_smap := clone\<rparr>), smap', False, None))
                 else
                   (case IsDuplicate x smap' nsi' of
                      Some err \<Rightarrow> (p1, smap', False, Some (ErrWithSelfPrefix err))
                    | None \<Rightarrow> (p1, smap', True, None)))))"

text \<open>
  \<^verbatim>\<open>_updPre\<close>, \<^verbatim>\<open>_updPost\<close> and \<^verbatim>\<open>_updFinal\<close>, the callbacks of
  \<^verbatim>\<open>updateAndDistribute\<close>, which always sets \<^verbatim>\<open>ctx.nsi\<close>; where it is nil (Go would
  dereference a nil pointer) the model changes nothing.
\<close>

definition updPre :: "ext \<Rightarrow> preCB" where
  "updPre x ctx clone p =
    (if \<not> isPrimary clone (si p) then (p, ctx, clone, Some (ErrNotPrimaryAdd (nsi ctx)))
     else
       (case nsi ctx of
          None \<Rightarrow> (p, ctx, clone, None)
        | Some n \<Rightarrow>
           (let (clone1, ex) = putNode x n (flags ctx) clone;
                ctx1 = ctx\<lparr>exists := ex\<rparr>;
                p1 = (if IsTarget n
                      then emit (MetasyncNotify \<lparr>Action = ActStartGFN x\<rparr> clone1) p
                      else p);
                clone2 = staffIC x clone1
            in (p1, ctx1, clone2, None))))"

definition updPost :: "ext \<Rightarrow> postCB" where
  "updPost x ctx clone p =
    (case nsi ctx of
       None \<Rightarrow> (p, ctx)
     | Some n \<Rightarrow>
        if \<not> IsTarget n then (p, ctx)
        else if exists ctx \<or> requiresRebalance x (smap ctx) clone then
          (let (p1, rmdClone) =
                 rmd_modify (\<lambda>c. rebMD_inc (c\<lparr>TargetIDs := [SnodeID n]\<rparr>)) p
           in (p1, ctx\<lparr>rmd := Some rmdClone\<rparr>))
        else (p, ctx))"

definition updFinal :: "ext \<Rightarrow> finalCB" where
  "updFinal x ctx clone p =
    (case nsi ctx of
       None \<Rightarrow> p
     | Some n \<Rightarrow>
        (let tokens = revokedTokens p;
             bmd = owner_bmd p;
             pairs = [RevSmap clone, RevBMD bmd];
             (p1, pairs1) =
               (case rmd ctx of
                  Some r \<Rightarrow>
                    if IsTarget n then (emit (NotifsAdd (RMD_Version r)) p, pairs @ [RevRMD r])
                    else if IsProxy n then (p, pairs @ [RevRMD (owner_rmd p)])
                    else (p, pairs)
                | None \<Rightarrow>
                    if IsProxy n then (p, pairs @ [RevRMD (owner_rmd p)]) else (p, pairs));
             pairs2 = (if length tokens > 0 then pairs1 @ [RevTokens tokens] else pairs1)
         in emit SyncNewICOwners (emit (MetasyncSync (msg ctx) pairs2) p1)))"

text \<open>
  \<^verbatim>\<open>updateAndDistribute(nsi, msg, flags)\<close>; the result is the version of the new RMD, from
  which the source prints the rebalance ID, or \<open>None\<close> for the empty string.
\<close>

definition updateAndDistribute ::
  "ext \<Rightarrow> Snode \<Rightarrow> ActionMsg \<Rightarrow> uint64 \<Rightarrow> proxyrunner \<Rightarrow> proxyrunner \<times> int option" where
  "updateAndDistribute x nsi' msg' flags' p =
    (let ctx = smapModifier0\<lparr>nsi := Some nsi', msg := Some msg', flags := flags'\<rparr>
     in case smap_modify (updPre x) (Some (updPost x)) (Some (updFinal x)) ctx p of
          (p1, ctx1, Some err) \<Rightarrow> (p1, None)
        | (p1, ctx1, None) \<Rightarrow>
           (case rmd ctx1 of
              Some r \<Rightarrow> (p1, Some (RMD_Version r))
            | None \<Rightarrow> (p1, None)))"

text \<open>
  \<^verbatim>\<open>userRegisterNode(nsi, tag)\<close>; \<open>res\<close> is what \<^verbatim>\<open>p.call\<close> returns: the error, the status
  and the details.
\<close>

record callResult =
  res_err :: "string option"
  res_status :: nat
  res_details :: string

definition userRegisterNode ::
  "ext \<Rightarrow> callResult \<Rightarrow> Snode \<Rightarrow> string \<Rightarrow> proxyrunner \<Rightarrow> proxyrunner \<times> nat \<times> perr option" where
  "userRegisterNode x res nsi' tag p =
    (let p1 = emit (CallNode nsi' ReqUserReg) p
     in case res_err res of
          None \<Rightarrow> (p1, 0, None)
        | Some e \<Rightarrow>
           (p1, res_status res,
            Some (if IsErrConnectionRefused x e then ErrFailedToReach nsi'
                  else ErrFailedTo tag nsi' e (res_details res))))"


text \<open>
  What \<^verbatim>\<open>httpclupost\<close> receives:
  \<^item> \<open>rq_item\<close>: \<^verbatim>\<open>apiItems[0]\<close>, or \<open>None\<close> when \<^verbatim>\<open>checkRESTItems\<close> failed;
  \<^item> \<open>rq_forwarded\<close>: \<^verbatim>\<open>p.forwardCP\<close> returned true;
  \<^item> \<open>rq_body\<close>: what \<^verbatim>\<open>cmn.ReadJSON\<close> decoded, or \<open>None\<close> when it failed (for
    user-register only the node is read: \<^verbatim>\<open>&regReq.SI\<close>);
  \<^item> \<open>rq_nonElectable\<close>: the value \<^verbatim>\<open>cmn.ParseBool\<close> gives for the query parameter;
  \<^item> \<open>rq_userReg\<close>: the answer of the node to the call of \<^verbatim>\<open>userRegisterNode\<close>.
  \<^verbatim>\<open>checkRESTItems\<close>, \<^verbatim>\<open>forwardCP\<close> and \<^verbatim>\<open>ReadJSON\<close> write their own replies.
\<close>

record clupostReq =
  rq_item :: "string option"
  rq_forwarded :: bool
  rq_body :: "nodeRegMeta option"
  rq_nonElectable :: bool
  rq_userReg :: callResult

text \<open>
  The second half of \<^verbatim>\<open>httpclupost\<close>, from \<^verbatim>\<open>p.owner.smap.Lock()\<close> to its end. The
  goroutine \<^verbatim>\<open>go p.updateAndDistribute(...)\<close> is run in place.
\<close>

definition httpclupost_locked ::
  "ext \<Rightarrow> nodeRegMeta \<Rightarrow> string \<Rightarrow> bool \<Rightarrow> bool \<Rightarrow> bool \<Rightarrow> ActionMsg \<Rightarrow> uint64
     \<Rightarrow> proxyrunner \<Rightarrow> proxyrunner \<times> reply list" where
  "httpclupost_locked x regReq tag keepalive userRegister selfRegister msg' flags' p =
    (let nsi' = reg_SI regReq;
         isProxy = IsProxy nsi';
         (p1, smap', update, err) =
            handleJoinKalive x nsi' (reg_Smap regReq) tag keepalive flags' p;
         p2 = (if \<not> isProxy \<and> NodeStarted p1 then
                 (if \<not> rmd_rebalance p1 then p1\<lparr>rmd_rebalance := reg_Reb regReq\<rparr> else p1)
               else p1)
     in case err of
          Some e \<Rightarrow> (p2, [InvalMsg e None])
        | None \<Rightarrow>
           if \<not> update then (p2, [])
           else
             (let w1 = (if \<not> isProxy \<and> selfRegister then
                          [WriteJSON \<lparr>reg_Smap = Some smap', reg_BMD = Some (owner_bmd p2),
                                      reg_SI = si p2, reg_Reb = False\<rparr>]
                        else [])
              in if \<not> isProxy \<and> userRegister then
                   (case updateAndDistribute x nsi' msg' flags' p2 of
                      (p3, Some rebID') \<Rightarrow> (p3, w1 @ [WriteRebID rebID'])
                    | (p3, None) \<Rightarrow> (p3, w1))
                 else (fst (updateAndDistribute x nsi' msg' flags' p2), w1)))"

text \<open>\<^verbatim>\<open>httpclupost\<close>, the handler of \<^verbatim>\<open>POST /v1/cluster\<close>.\<close>

definition httpclupost :: "ext \<Rightarrow> clupostReq \<Rightarrow> proxyrunner \<Rightarrow> proxyrunner \<times> reply list" where
  "httpclupost x rq p =
    (case rq_item rq of
       None \<Rightarrow> (p, [])
     | Some item \<Rightarrow>
      if inPrimaryTransition p \<and> item = Keepalive then (p, [])
      else if rq_forwarded rq then (p, [])
      else if item \<noteq> UserRegister \<and> item \<noteq> Keepalive \<and> item \<noteq> AutoRegister then
        (p, [InvalMsg (ErrInvalidURLPath item) None])
      else
       (case rq_body rq of
          None \<Rightarrow> (p, [])
        | Some body \<Rightarrow>
         (let userRegister = (item = UserRegister);
              keepalive = (item = Keepalive);
              selfRegister = (item = AutoRegister);
              tag = (if userRegister then ''user-register''
                     else if keepalive then ''keepalive'' else ''join'');
              regReq = (if userRegister
                        then \<lparr>reg_Smap = None, reg_BMD = None, reg_SI = reg_SI body,
                               reg_Reb = False\<rparr>
                        else body);
              p1 = (if selfRegister \<and> \<not> ClusterStarted p
                    then p\<lparr>reg_pool := reg_pool p @ [regReq]\<rparr> else p);
              nsi' = reg_SI regReq
          in case Validate x nsi' of
               Some e \<Rightarrow> (p1, [InvalMsg (ErrExternal e) None])
             | None \<Rightarrow>
              (case (if NodeStarted p1
                     then bmd_validateUUID x (owner_bmd p1) (reg_BMD regReq) (si p1) nsi'
                     else None) of
                 Some e \<Rightarrow> (p1, [InvalMsg (ErrExternal e) None])
               | None \<Rightarrow>
                (let isProxy = IsProxy nsi';
                     msg' = \<lparr>Action = (if isProxy then ActRegProxy x else ActRegTarget x)\<rparr>;
                     nonElectable = (isProxy \<and> rq_nonElectable rq)
                 in case validateHostname x (NodeHostname (PublicNet nsi')) of
                      Some e \<Rightarrow> (p1, [InvalMsg (ErrHostname tag nsi' e) None])
                    | None \<Rightarrow>
                     (let p2 = emit StatsAddPostCount p1;
                          flags' = (if nonElectable then SnodeNonElectable x else 0);
                          (p3, errCode, uerr) =
                             (if userRegister then userRegisterNode x (rq_userReg rq) nsi' tag p2
                              else (p2, 0, None))
                      in case uerr of
                           Some e \<Rightarrow> (p3, [InvalMsg e (Some errCode)])
                         | None \<Rightarrow>
                          (case (if selfRegister then GetNode (owner_smap p3) (SnodeID nsi')
                                 else None) of
                             Some osi \<Rightarrow>
                               if \<not> Equals osi nsi' \<and> detectDaemonDuplicate x osi nsi' then
                                 (p3, [InvalMsg (ErrDuplicateNodeID (SnodeID nsi') osi nsi') None])
                               else httpclupost_locked x regReq tag keepalive userRegister
                                      selfRegister msg' flags' p3
                           | None \<Rightarrow>
                               httpclupost_locked x regReq tag keepalive userRegister
                                 selfRegister msg' flags' p3)))))))"


section \<open>Removing a node, stopping maintenance, and the rebalance that follows\<close>

text \<open>
  \<^verbatim>\<open>_perfRebPost\<close> (an Isabelle name cannot start with an underscore): the \<^verbatim>\<open>post\<close>
  callback of \<^verbatim>\<open>unregNode\<close> and of \<^verbatim>\<open>cancelMaintenance\<close>. Go evaluates
  \<^verbatim>\<open>!ctx.skipReb && p.requiresRebalance(ctx.smap, clone)\<close> from left to right.
\<close>

definition perfRebPost :: "ext \<Rightarrow> postCB" where
  "perfRebPost x ctx clone p =
    (if \<not> skipReb ctx \<and> requiresRebalance x (smap ctx) clone then
       (let (p1, rmdClone) = rmd_modify rebMD_inc p
        in (p1, ctx\<lparr>rmd := Some rmdClone\<rparr>))
     else (p, ctx))"

text \<open>\<^verbatim>\<open>_syncFinal\<close>, the \<^verbatim>\<open>final\<close> callback of both.\<close>

definition syncFinal :: "finalCB" where
  "syncFinal ctx clone p =
    (let pairs = [RevSmap clone]
     in case rmd ctx of
          Some r \<Rightarrow> emit (MetasyncSync (msg ctx) (pairs @ [RevRMD r]))
                      (emit (NotifsAdd (RMD_Version r)) p)
        | None \<Rightarrow> emit (MetasyncSync (msg ctx) pairs) p)"

text \<open>\<^verbatim>\<open>_unregNodePre\<close>, the \<^verbatim>\<open>pre\<close> callback of \<^verbatim>\<open>unregNode\<close>.\<close>

definition unregNodePre :: "ext \<Rightarrow> preCB" where
  "unregNodePre x ctx clone p =
    (let sid' = sid ctx;
         node = GetNode clone sid'
     in if \<not> isPrimary clone (si p) then (p, ctx, clone, Some (ErrNotPrimaryRemove sid'))
        else
          (case node of
             None \<Rightarrow>
               (p, ctx\<lparr>status := StatusNotFound\<rparr>, clone,
                Some (ErrNodeNotFound ''failed to remove'' sid'))
           | Some n \<Rightarrow>
               if \<not> NodeStarted p then
                 (p, ctx\<lparr>status := StatusServiceUnavailable\<rparr>, clone, None)
               else
                 (let clone1 = (if IsProxy n then delProxy x sid' clone
                                else delTarget x sid' clone);
                      clone2 = staffIC x clone1
                  in (emit (RproxyDelete sid') p, ctx, clone2, None))))"

text \<open>\<^verbatim>\<open>unregNode(msg, si, skipReb)\<close> returns \<^verbatim>\<open>(ctx.status, err)\<close>.\<close>

definition unregNode ::
  "ext \<Rightarrow> ActionMsg \<Rightarrow> Snode \<Rightarrow> bool \<Rightarrow> proxyrunner \<Rightarrow> proxyrunner \<times> nat \<times> perr option" where
  "unregNode x msg' node skipReb' p =
    (let ctx = smapModifier0\<lparr>msg := Some msg', sid := SnodeID node, skipReb := skipReb'\<rparr>
     in case smap_modify (unregNodePre x) (Some (perfRebPost x)) (Some syncFinal) ctx p of
          (p1, ctx1, err) \<Rightarrow> (p1, status ctx1, err))"

text \<open>
  The loop of \<^verbatim>\<open>callRmSelf\<close>: at most \<^verbatim>\<open>retries\<close> calls to the node, stopping at the first
  that succeeds; \<open>res i\<close> is the error of the call number \<open>i\<close>.
\<close>

fun callRetries ::
  "nat \<Rightarrow> nat \<Rightarrow> (nat \<Rightarrow> string option) \<Rightarrow> Snode \<Rightarrow> callReq \<Rightarrow> proxyrunner \<Rightarrow> proxyrunner" where
  "callRetries 0 i res node req p = p"
| "callRetries (Suc k) i res node req p =
     (let p1 = emit (CallNode node req) p
      in case res i of None \<Rightarrow> p1 | Some er \<Rightarrow> callRetries k (Suc i) res node req p1)"

text \<open>
  \<^verbatim>\<open>callRmSelf(msg, si, skipReb)\<close>. An action outside the switch fails a debug assertion
  only; the request is then the empty one.
\<close>

definition callRmSelf ::
  "ext \<Rightarrow> (nat \<Rightarrow> string option) \<Rightarrow> ActionMsg \<Rightarrow> Snode \<Rightarrow> bool \<Rightarrow> proxyrunner
     \<Rightarrow> proxyrunner \<times> nat \<times> perr option" where
  "callRmSelf x res msg' node skipReb' p =
    (case GetNode (owner_smap p) (SnodeID node) of
       None \<Rightarrow>
         (p, StatusNotFound,
          Some (ErrNodeNotFound (''cannot '' @ [CHR 0x22] @ Action msg' @ [CHR 0x22])
                  (SnodeID node)))
     | Some n \<Rightarrow>
        (let req = (if Action msg' = ActShutdownNode then ReqShutdown
                    else if Action msg' = ActStartMaintenance \<or> Action msg' = ActDecommission
                            \<or> Action msg' = testInitiatedRm then ReqUnreg
                    else ReqNone);
             p1 = callRetries 2 0 res n req p
         in unregNode x msg' node skipReb' p1))"

text \<open>
  \<^verbatim>\<open>httpcludel\<close>, the handler of \<^verbatim>\<open>DELETE /v1/cluster/daemon/{id}\<close>. \<open>item\<close> is
  \<^verbatim>\<open>apiItems[0]\<close> (or \<open>None\<close>), \<open>forwarded\<close> the result of \<^verbatim>\<open>forwardCP\<close>, \<open>intra\<close> that of
  \<^verbatim>\<open>isIntraCall\<close>, \<open>cid\<close> the header \<^verbatim>\<open>caller-id\<close>, \<open>res\<close> the answers of the node.
\<close>

definition httpcludel ::
  "ext \<Rightarrow> string option \<Rightarrow> bool \<Rightarrow> bool \<Rightarrow> string \<Rightarrow> (nat \<Rightarrow> string option) \<Rightarrow> proxyrunner
     \<Rightarrow> proxyrunner \<times> reply list" where
  "httpcludel x item forwarded intra cid res p =
    (case item of
       None \<Rightarrow> (p, [])
     | Some sid' \<Rightarrow>
        (case GetNode (owner_smap p) sid' of
           None \<Rightarrow> (p, [InvalMsg (ErrNodeNotFound ''cannot remove'' sid') (Some StatusNotFound)])
         | Some node \<Rightarrow>
            if forwarded then (p, [])
            else
              (let (p1, errCode, err) =
                     (if intra then
                        (if cid = sid' then
                           unregNode x \<lparr>Action = ''self-initiated-removal''\<rparr> node False p
                         else (p, 0, Some (ErrExpectingSelfRemoval cid sid')))
                      else callRmSelf x res \<lparr>Action = testInitiatedRm\<rparr> node False p)
               in case err of
                    Some e \<Rightarrow> (p1, [InvalMsg e (Some errCode)])
                  | None \<Rightarrow> (p1, []))))"

text \<open>\<^verbatim>\<open>_cancelMaintPre\<close> and \<^verbatim>\<open>cancelMaintenance(msg, opts)\<close>, which returns the rebalance ID (0 if none).\<close>

definition cancelMaintPre :: "ext \<Rightarrow> preCB" where
  "cancelMaintPre x ctx clone p =
    (if \<not> isPrimary clone (si p) then (p, ctx, clone, Some (ErrNotPrimaryCancelMaint (sid ctx)))
     else (p, ctx, staffIC x (clearNodeFlags x (sid ctx) (flags ctx) clone), None))"

definition cancelMaintenance ::
  "ext \<Rightarrow> ActionMsg \<Rightarrow> string \<Rightarrow> bool \<Rightarrow> proxyrunner \<Rightarrow> proxyrunner \<times> int \<times> perr option" where
  "cancelMaintenance x msg' daemonID skipRebalance p =
    (let ctx = smapModifier0\<lparr>sid := daemonID, skipReb := skipRebalance, msg := Some msg',
                              flags := SnodeMaintenanceMask x\<rparr>
     in case smap_modify (cancelMaintPre x) (Some (perfRebPost x)) (Some syncFinal) ctx p of
          (p1, ctx1, err) \<Rightarrow>
            (p1, (case rmd ctx1 of Some r \<Rightarrow> RMD_Version r | None \<Rightarrow> 0), err))"


section \<open>Primary handover (\<^verbatim>\<open>PUT /v1/cluster/proxy/{id}\<close>)\<close>

text \<open>The first result of a broadcast that carries an error, as the loops of the source find it.\<close>

fun firstError :: "(Snode \<times> string option) list \<Rightarrow> (Snode \<times> string) option" where
  "firstError [] = None"
| "firstError ((node, None) # rs) = firstError rs"
| "firstError ((node, Some e) # rs) = Some (node, e)"

text \<open>
  The loop over the results of the commit phase: an error of the new primary ends the process
  (\<^verbatim>\<open>cmn.ExitLogf\<close>), any other error is logged. The result says whether the process went on.
\<close>

fun commitLoop :: "string \<Rightarrow> (Snode \<times> string option) list \<Rightarrow> proxyrunner \<Rightarrow> proxyrunner \<times> bool" where
  "commitLoop proxyid [] p = (p, True)"
| "commitLoop proxyid ((node, None) # rs) p = commitLoop proxyid rs p"
| "commitLoop proxyid ((node, Some e) # rs) p =
     (if SnodeID node = proxyid then (emit ExitLog p, False) else commitLoop proxyid rs p)"

text \<open>
  \<^verbatim>\<open>cluSetPrimary\<close>. \<open>item\<close> is \<^verbatim>\<open>apiItems[0]\<close> (or \<open>None\<close>), \<open>forwarded\<close> the result of
  \<^verbatim>\<open>forwardCP\<close>, \<open>prepare\<close> and \<open>commit\<close> the results of the two broadcasts, each a node
  with its error. \<^verbatim>\<open>cmn.Assert\<close> panics when its condition is false. The deferred
  \<^verbatim>\<open>inPrimaryTransition.Store(false)\<close> runs when the handler returns, not when the process
  exits.
\<close>

definition cluSetPrimary ::
  "ext \<Rightarrow> string option \<Rightarrow> bool \<Rightarrow> (Snode \<times> string option) list
     \<Rightarrow> (Snode \<times> string option) list \<Rightarrow> proxyrunner \<Rightarrow> proxyrunner \<times> reply list" where
  "cluSetPrimary x item forwarded prepare commit p =
    (case item of
       None \<Rightarrow> (p, [])
     | Some proxyid \<Rightarrow>
        if forwarded then (p, [])
        else
          (let smap' = owner_smap p
           in case GetProxy smap' proxyid of
                None \<Rightarrow> (p, [InvalMsg (ErrNewPrimaryNotPresent proxyid) None])
              | Some psi \<Rightarrow>
                 if proxyid = SnodeID (si p) then
                   (if isPrimary smap' (si p) then (p, []) else (emit AssertFailed p, []))
                 else if PresentInMaint x smap' psi then
                   (p, [InvalMsg (ErrPrimaryUnderMaintenance psi) None])
                 else
                   (let p1 = emit (Bcast proxyid True) p
                    in case firstError prepare of
                         Some (node, e) \<Rightarrow> (p1, [InvalMsg (ErrPreparePhase proxyid e node) None])
                       | None \<Rightarrow>
                          (let p2 = emit (StoreInPrimaryTransition True)
                                      (p1\<lparr>inPrimaryTransition := True\<rparr>);
                               (p3, ctx, err) =
                                  smap_modify
                                    (\<lambda>ctx clone q.
                                       (emit BecomeNonPrimary q, ctx, clone\<lparr>Primary := Some psi\<rparr>,
                                        None))
                                    None None smapModifier0 p2;
                               p4 = emit (Bcast proxyid False) p3;
                               (p5, alive) = commitLoop proxyid commit p4
                           in if alive then
                                (emit (StoreInPrimaryTransition False)
                                   (p5\<lparr>inPrimaryTransition := False\<rparr>), [])
                              else (p5, [])))))"


section \<open>Promoting a directory (package xs)\<close>

text \<open>
  \<^verbatim>\<open>cluster.PromoteArgs\<close> and \<^verbatim>\<open>cluster.PromoteParams\<close> with the fields the source reads and
  sets; a bucket is its name.
\<close>

record PromoteArgs =
  SrcFQN :: string
  ObjName :: string
  Recursive :: bool
  OverwriteDst :: bool
  DeleteSrc :: bool

record PromoteParams =
  Bck :: string
  Args :: PromoteArgs

text \<open>
  What \<^verbatim>\<open>walk\<close> calls outside the sources, taken as given: \<^verbatim>\<open>cmn.PromotedObjDstName\<close>,
  \<^verbatim>\<open>bck.MakeUname\<close>, the HRW placement \<^verbatim>\<open>smap.HrwName2T\<close>, the target's \<^verbatim>\<open>Promote\<close>
  (its error, if any) and \<^verbatim>\<open>cmn.IsNotExist\<close>. \<open>Inl\<close> is an error.
\<close>

record xs_ext =
  PromotedObjDstName :: "string \<Rightarrow> string \<Rightarrow> string \<Rightarrow> string + string"
  MakeUname :: "string \<Rightarrow> string \<Rightarrow> string"
  HrwName2T :: "smapX \<Rightarrow> string \<Rightarrow> string + Snode"
  Promote :: "PromoteParams \<Rightarrow> string option"
  IsNotExist :: "string \<Rightarrow> bool"

text \<open>
  \<^verbatim>\<open>XactDirPromote\<close>: the arguments of the factory (\<^verbatim>\<open>r.p.args\<close>), the cluster map read in
  \<^verbatim>\<open>Run\<close>, the bucket, the ID of the target that runs it (\<^verbatim>\<open>r.p.T.SID()\<close>), the file-share
  flag, and the calls of \<^verbatim>\<open>Promote\<close> made so far.
\<close>

record XactDirPromote =
  x_args :: PromoteArgs
  x_smap :: smapX
  x_bck :: string
  x_SID :: string
  confirmedFshare :: bool
  promoteCalls :: "PromoteParams list"

text \<open>
  \<^verbatim>\<open>walk(fqn, de)\<close>, the callback of the directory walk; \<open>isDir\<close> is \<^verbatim>\<open>de.IsDir()\<close>. It
  returns the error, if any.
\<close>

definition walk ::
  "xs_ext \<Rightarrow> string \<Rightarrow> bool \<Rightarrow> XactDirPromote \<Rightarrow> XactDirPromote \<times> string option" where
  "walk x fqn isDir r =
    (if isDir then (r, None)
     else
       (let args = x_args r
        in case PromotedObjDstName x fqn (SrcFQN args) (ObjName args) of
             Inl err \<Rightarrow> (r, Some err)
           | Inr objName \<Rightarrow>
              (case (if confirmedFshare r then
                       (case HrwName2T x (x_smap r) (MakeUname x (x_bck r) objName) of
                          Inl err \<Rightarrow> Some (Some err)
                        | Inr tsi \<Rightarrow> if SnodeID tsi \<noteq> x_SID r then Some None else None)
                     else None) of
                 Some ret \<Rightarrow> (r, ret)
               | None \<Rightarrow>
                  (let params = \<lparr>Bck = x_bck r,
                                 Args = \<lparr>SrcFQN = fqn, ObjName = objName, Recursive = False,
                                         OverwriteDst = OverwriteDst args,
                                         DeleteSrc = DeleteSrc args\<rparr>\<rparr>;
                       err = Promote x params;
                       err' = (case err of
                                 None \<Rightarrow> None
                               | Some e \<Rightarrow> if IsNotExist x e then None else Some e)
                   in (r\<lparr>promoteCalls := promoteCalls r @ [params]\<rparr>, err')))))"


section \<open>Example values\<close>

text \<open>
  A small cluster used to run the definitions: the primary proxy \<open>p1\<close>, a second proxy
  \<open>p2\<close>, two targets \<open>t1\<close> and \<open>t2\<close>, and the cluster map that holds them.
\<close>

definition ex_net :: "string \<Rightarrow> NetInfo" where
  "ex_net h = \<lparr>NodeHostname = h, DaemonPort = ''8080'', DirectURL = ''http://'' @ h @ '':8080''\<rparr>"

definition ex_node :: "string \<Rightarrow> daemonType \<Rightarrow> Snode" where
  "ex_node i ty =
     \<lparr>DaemonID = i, DaeType = ty, PublicNet = ex_net i, IntraControlNet = ex_net i,
      IntraDataNet = ex_net i, Flags = 0\<rparr>"

definition ex_smap :: smapX where
  "ex_smap =
     \<lparr>Version = 3, UUID = ''u1'', Primary = Some (ex_node ''p1'' Proxy),
      Pmap = [''p1'' \<mapsto> ex_node ''p1'' Proxy, ''p2'' \<mapsto> ex_node ''p2'' Proxy],
      Tmap = [''t1'' \<mapsto> ex_node ''t1'' Target, ''t2'' \<mapsto> ex_node ''t2'' Target]\<rparr>"

text \<open>
  The mutators of the cluster map for the examples, as plain updates of its two maps, and
  the other parts taken as given: every change requires a rebalance, nothing is invalid,
  no node is under maintenance.
\<close>

definition ex_ext :: ext where
  "ex_ext =
     \<lparr>putNode = (\<lambda>n f m.
         (if IsProxy n then m\<lparr>Pmap := (Pmap m)(SnodeID n \<mapsto> n\<lparr>Flags := f\<rparr>)\<rparr>
          else m\<lparr>Tmap := (Tmap m)(SnodeID n \<mapsto> n\<lparr>Flags := f\<rparr>)\<rparr>,
          GetNode m (SnodeID n) \<noteq> None)),
      delProxy = (\<lambda>i m. m\<lparr>Pmap := (Pmap m)(i := None)\<rparr>),
      delTarget = (\<lambda>i m. m\<lparr>Tmap := (Tmap m)(i := None)\<rparr>),
      clearNodeFlags = (\<lambda>i f m. m),
      staffIC = (\<lambda>m. m),
      PresentInMaint = (\<lambda>m n. False),
      IsDuplicate = (\<lambda>m n. None),
      smap_validateUUID = (\<lambda>m r s n. None),
      bmd_validateUUID = (\<lambda>m r s n. None),
      requiresRebalance = (\<lambda>old new. True),
      detectDaemonDuplicate = (\<lambda>a b. False),
      Validate = (\<lambda>n. None),
      validateHostname = (\<lambda>h. None),
      IsErrConnectionRefused = (\<lambda>e. False),
      SnodeNonElectable = 1,
      SnodeMaintenanceMask = 12,
      ActRegTarget = ''regtarget'',
      ActRegProxy = ''regproxy'',
      ActStartGFN = ''start-gfn''\<rparr>"

definition ex_proxy :: proxyrunner where
  "ex_proxy =
     \<lparr>si = ex_node ''p1'' Proxy, owner_smap = ex_smap,
      owner_rmd = \<lparr>RMD_Version = 5, TargetIDs = [], Resilver = False\<rparr>,
      owner_bmd = \<lparr>BMD_Version = 1, BMD_UUID = ''b1''\<rparr>,
      rmd_rebalance = False, inPrimaryTransition = False, NodeStarted = True,
      ClusterStarted = True, reg_pool = [], revokedTokens = [], trace = []\<rparr>"

definition ex_status :: Status where
  "ex_status =
     \<lparr>Targets = [], SmapVersion = 4, RebVersion = 4, RebID = 8, Stage = 1, Aborted = False,
      Running = True, Quiescent = False\<rparr>"

definition ex_reb :: Reb where
  "ex_reb = \<lparr>rebID = 7, xaborted = False, abortBcasts = 0\<rparr>"

text \<open>A health body that is the status itself and always decodes.\<close>

definition ex_unmarshal :: "Status \<Rightarrow> Status \<times> string option" where
  "ex_unmarshal body = (body, None)"

text \<open>A keepalive of target \<open>t1\<close>, which is in the example map as it is sent.\<close>

definition ex_keepalive :: clupostReq where
  "ex_keepalive =
     \<lparr>rq_item = Some ''keepalive'', rq_forwarded = False,
      rq_body = Some \<lparr>reg_Smap = None, reg_BMD = None, reg_SI = ex_node ''t1'' Target,
                      reg_Reb = False\<rparr>,
      rq_nonElectable = False,
      rq_userReg = \<lparr>res_err = None, res_status = 0, res_details = []\<rparr>\<rparr>"

text \<open>
  A directory promote with file share on target \<open>sid\<close>; in the example every object name
  is placed on target \<open>t1\<close>.
\<close>

definition ex_xs_ext :: xs_ext where
  "ex_xs_ext =
     \<lparr>PromotedObjDstName = (\<lambda>fqn src obj. Inr fqn),
      MakeUname = (\<lambda>b n. b @ ''/'' @ n),
      HrwName2T = (\<lambda>m u. Inr (ex_node ''t1'' Target)),
      Promote = (\<lambda>params. None),
      IsNotExist = (\<lambda>e. False)\<rparr>"

definition ex_args :: PromoteArgs where
  "ex_args =
     \<lparr>SrcFQN = ''/srv/ingest'', ObjName = [], Recursive = False, OverwriteDst = False,
      DeleteSrc = False\<rparr>"

definition ex_xact :: "string \<Rightarrow> XactDirPromote" where
  "ex_xact sid' =
     \<lparr>x_args = ex_args, x_smap = ex_smap, x_bck = ''bck'', x_SID = sid',
      confirmedFshare = True, promoteCalls = []\<rparr>"


section \<open>Properties of the access-control bitmask\<close>

lemmas access_defs = AccessGET_def AccessObjHEAD_def AccessPUT_def AccessAPPEND_def
  AccessDownload_def AccessObjDELETE_def AccessObjRENAME_def AccessPROMOTE_def
  AccessBckHEAD_def AccessObjLIST_def AccessBckRENAME_def AccessPATCH_def
  AccessMAKENCOPIES_def AccessEC_def AccessSYNC_def AccessBckDELETE_def
  AccessBckCreate_def AccessBckLIST_def AccessADMIN_def

text \<open>
  C7. For every mask \<open>cur\<close> and bit set \<open>bits\<close>, \<^verbatim>\<open>ModifyAccess(cur, action, bits)\<close> returns
  \<open>cur OR bits\<close> and no error when the action is "allow", \<open>cur AND NOT bits\<close> and no error
  when it is "deny", and the zero mask with an error for every other action string.
\<close>

theorem ModifyAccess_by_action:
  "(action = ''allow'' \<longrightarrow> ModifyAccess cur action bits = (cur OR bits, None))
   \<and> (action = ''deny'' \<longrightarrow> ModifyAccess cur action bits = (cur AND NOT bits, None))
   \<and> (action \<noteq> ''allow'' \<and> action \<noteq> ''deny'' \<longrightarrow>
         ModifyAccess cur action bits = (0, Some (UnknownMakeAccessAction action)))"
  by (simp add: ModifyAccess_def AllowAccess_def DenyAccess_def allowAllAccess_def)

theorem ModifyAccess_by_action_witness:
  "ModifyAccess 5 ''allow'' 2 = (7, None)
   \<and> ModifyAccess 7 ''deny'' 2 = (5, None)
   \<and> ModifyAccess 7 ''grant'' 2 = (0, Some (UnknownMakeAccessAction ''grant''))"
  using ModifyAccess_by_action [of "''allow''" 5 2]
        ModifyAccess_by_action [of "''deny''" 7 2]
        ModifyAccess_by_action [of "''grant''" 7 2]
  by simp

text \<open>
  C8. For every mask \<open>m\<close> and bit set \<open>b\<close>, allowing \<open>b\<close> and then denying \<open>b\<close> gives the
  same result as denying \<open>b\<close> alone; the inner call returns no error and its mask is passed on.
\<close>

theorem ModifyAccess_allow_then_deny:
  "ModifyAccess (fst (ModifyAccess m ''allow'' b)) ''deny'' b = ModifyAccess m ''deny'' b
   \<and> snd (ModifyAccess m ''allow'' b) = None"
proof -
  have "(m OR b) AND NOT b = m AND NOT b"
    by (rule bit_eqI) (auto simp: bit_and_iff bit_or_iff bit_not_iff)
  then show ?thesis
    by (simp add: ModifyAccess_def AllowAccess_def DenyAccess_def allowAllAccess_def)
qed

text \<open>Each test of \<^verbatim>\<open>accessToStr\<close> reads one bit of the mask.\<close>

lemma bit_exp_word64: "bit (2 ^ j :: uint64) k \<longleftrightarrow> k = j \<and> j < 64"
  by (auto simp: bit_exp_iff)

lemma bit_uncheckedBits: "bit uncheckedBits k \<longleftrightarrow> k = 13 \<or> k = 16 \<or> k = 17 \<or> k = 18"
  unfolding uncheckedBits_def access_defs push_bit_of_1 bit_or_iff bit_exp_word64
  by simp

lemma bit_clusterBits: "bit clusterBits k \<longleftrightarrow> k = 16 \<or> k = 17 \<or> k = 18"
  unfolding clusterBits_def access_defs push_bit_of_1 bit_or_iff bit_exp_word64
  by simp

lemma and_exp_word:
  assumes "k < 64"
  shows "(m :: uint64) AND 2 ^ k = 2 ^ k \<longleftrightarrow> bit m k"
proof
  assume "m AND 2 ^ k = 2 ^ k"
  then have "bit (m AND 2 ^ k) k = bit (2 ^ k :: uint64) k" by simp
  then show "bit m k" using assms by (simp add: bit_and_iff bit_exp_word64)
next
  assume "bit m k"
  then show "m AND 2 ^ k = 2 ^ k"
    by (intro bit_eqI) (auto simp: bit_and_iff bit_exp_word64)
qed

lemma test_bit:
  "m AND AccessGET = AccessGET \<longleftrightarrow> bit m 0"
  "m AND AccessObjHEAD = AccessObjHEAD \<longleftrightarrow> bit m 1"
  "m AND AccessPUT = AccessPUT \<longleftrightarrow> bit m 2"
  "m AND AccessAPPEND = AccessAPPEND \<longleftrightarrow> bit m 3"
  "m AND AccessDownload = AccessDownload \<longleftrightarrow> bit m 4"
  "m AND AccessObjDELETE = AccessObjDELETE \<longleftrightarrow> bit m 5"
  "m AND AccessObjRENAME = AccessObjRENAME \<longleftrightarrow> bit m 6"
  "m AND AccessPROMOTE = AccessPROMOTE \<longleftrightarrow> bit m 7"
  "m AND AccessBckHEAD = AccessBckHEAD \<longleftrightarrow> bit m 8"
  "m AND AccessObjLIST = AccessObjLIST \<longleftrightarrow> bit m 9"
  "m AND AccessBckRENAME = AccessBckRENAME \<longleftrightarrow> bit m 10"
  "m AND AccessPATCH = AccessPATCH \<longleftrightarrow> bit m 11"
  "m AND AccessMAKENCOPIES = AccessMAKENCOPIES \<longleftrightarrow> bit m 12"
  "m AND AccessSYNC = AccessSYNC \<longleftrightarrow> bit m 14"
  "m AND AccessBckDELETE = AccessBckDELETE \<longleftrightarrow> bit m 15"
  unfolding access_defs push_bit_of_1 by (rule and_exp_word, simp)+

lemma in_set_appendIfSet:
  "s \<in> set (appendIfSet m b acc) \<longleftrightarrow> s \<in> set acc \<or> (s = accessOp b \<and> m AND b = b)"
  by (auto simp add: appendIfSet_def)

lemma appendIfSet_cong:
  "(m' AND b = b) = (m AND b = b) \<Longrightarrow> acc' = acc \<Longrightarrow> appendIfSet m' b acc' = appendIfSet m b acc"
  by (simp add: appendIfSet_def)

lemma accList_unchecked:
  "accessToStr_accList ((m AND NOT uncheckedBits) OR (u AND uncheckedBits)) = accessToStr_accList m"
  unfolding accessToStr_accList_def
  by (intro appendIfSet_cong refl;
      simp add: test_bit bit_and_iff bit_or_iff bit_not_iff bit_uncheckedBits)

lemma accessOp_vals:
  "accessOp AccessGET = ''GET''"
  "accessOp AccessObjHEAD = ''HEAD-OBJECT''"
  "accessOp AccessPUT = ''PUT''"
  "accessOp AccessAPPEND = ''APPEND''"
  "accessOp AccessDownload = ''DOWNLOAD''"
  "accessOp AccessObjDELETE = ''DELETE-OBJECT''"
  "accessOp AccessObjRENAME = ''RENAME-OBJECT''"
  "accessOp AccessPROMOTE = ''PROMOTE''"
  "accessOp AccessBckHEAD = ''HEAD-BUCKET''"
  "accessOp AccessObjLIST = ''LIST-OBJECTS''"
  "accessOp AccessBckRENAME = ''RENAME-BUCKET''"
  "accessOp AccessPATCH = ''PATCH''"
  "accessOp AccessMAKENCOPIES = ''MAKE-NCOPIES''"
  "accessOp AccessSYNC = ''SYNC-BUCKET''"
  "accessOp AccessBckDELETE = ''DELETE-BUCKET''"
  by (simp_all add: accessOp_def accessOp_entries_def access_defs)

lemma in_set_accList:
  "s \<in> set (accessToStr_accList m) \<longleftrightarrow>
         (s = ''GET'' \<and> bit m 0) \<or>
         (s = ''HEAD-OBJECT'' \<and> bit m 1) \<or>
         (s = ''PUT'' \<and> bit m 2) \<or>
         (s = ''APPEND'' \<and> bit m 3) \<or>
         (s = ''DOWNLOAD'' \<and> bit m 4) \<or>
         (s = ''DELETE-OBJECT'' \<and> bit m 5) \<or>
         (s = ''RENAME-OBJECT'' \<and> bit m 6) \<or>
         (s = ''PROMOTE'' \<and> bit m 7) \<or>
         (s = ''HEAD-BUCKET'' \<and> bit m 8) \<or>
         (s = ''LIST-OBJECTS'' \<and> bit m 9) \<or>
         (s = ''RENAME-BUCKET'' \<and> bit m 10) \<or>
         (s = ''PATCH'' \<and> bit m 11) \<or>
         (s = ''MAKE-NCOPIES'' \<and> bit m 12) \<or>
         (s = ''SYNC-BUCKET'' \<and> bit m 14) \<or>
         (s = ''DELETE-BUCKET'' \<and> bit m 15)"
  unfolding accessToStr_accList_def in_set_appendIfSet accessOp_vals test_bit
  by (simp only: list.set empty_iff simp_thms disj_assoc)

lemma cluster_only_bit:
  assumes "m AND NOT clusterBits = 0" and "k < 16"
  shows "\<not> bit m k"
proof
  assume "bit m k"
  with assms(2) have "bit (m AND NOT clusterBits) k"
    by (simp add: bit_and_iff bit_not_iff bit_clusterBits)
  with assms(1) show False by simp
qed

lemma cluster_only_accList:
  assumes "m AND NOT clusterBits = 0"
  shows "accessToStr_accList m = []"
proof -
  have "s \<notin> set (accessToStr_accList m)" for s
    using cluster_only_bit[OF assms]
    by (simp add: in_set_accList)
  then show ?thesis by (cases "accessToStr_accList m") auto
qed

text \<open>The list that \<^verbatim>\<open>accessToStr\<close> joins, as the names of the tested bits that are set.\<close>

lemma appendIfSet_filter:
  "acc = map snd (filter (\<lambda>(b, n). m AND b = b) tbl) \<Longrightarrow>
   appendIfSet m b acc = map snd (filter (\<lambda>(b, n). m AND b = b) (tbl @ [(b, accessOp b)]))"
  by (simp add: appendIfSet_def)

lemma accList_as_filter:
  "accessToStr_accList m =
     map snd (filter (\<lambda>(b, n). m AND b = b)
       [(AccessGET, ''GET''), (AccessObjHEAD, ''HEAD-OBJECT''), (AccessPUT, ''PUT''),
        (AccessAPPEND, ''APPEND''), (AccessDownload, ''DOWNLOAD''),
        (AccessObjDELETE, ''DELETE-OBJECT''), (AccessObjRENAME, ''RENAME-OBJECT''),
        (AccessPROMOTE, ''PROMOTE''), (AccessBckHEAD, ''HEAD-BUCKET''),
        (AccessObjLIST, ''LIST-OBJECTS''), (AccessBckRENAME, ''RENAME-BUCKET''),
        (AccessPATCH, ''PATCH''), (AccessMAKENCOPIES, ''MAKE-NCOPIES''),
        (AccessSYNC, ''SYNC-BUCKET''), (AccessBckDELETE, ''DELETE-BUCKET'')])"
proof -
  let ?P = "\<lambda>(b, n). m AND b = (b :: uint64)"
  have e: "[] = map snd (filter ?P ([] :: (uint64 \<times> string) list))" by simp
  have "accessToStr_accList m =
     map snd (filter ?P
       ((((((((((((((([] @ [(AccessGET, accessOp AccessGET)])
        @ [(AccessObjHEAD, accessOp AccessObjHEAD)])
        @ [(AccessPUT, accessOp AccessPUT)])
        @ [(AccessAPPEND, accessOp AccessAPPEND)])
        @ [(AccessDownload, accessOp AccessDownload)])
        @ [(AccessObjDELETE, accessOp AccessObjDELETE)])
        @ [(AccessObjRENAME, accessOp AccessObjRENAME)])
        @ [(AccessPROMOTE, accessOp AccessPROMOTE)])
        @ [(AccessBckHEAD, accessOp AccessBckHEAD)])
        @ [(AccessObjLIST, accessOp AccessObjLIST)])
        @ [(AccessBckRENAME, accessOp AccessBckRENAME)])
        @ [(AccessPATCH, accessOp AccessPATCH)])
        @ [(AccessMAKENCOPIES, accessOp AccessMAKENCOPIES)])
        @ [(AccessSYNC, accessOp AccessSYNC)])
        @ [(AccessBckDELETE, accessOp AccessBckDELETE)]))"
    unfolding accessToStr_accList_def
    by (intro appendIfSet_filter e)
  then show ?thesis
    by (simp only: accessOp_vals append_Nil append_Cons)
qed

lemma accessToStr_nonzero:
  "m \<noteq> 0 \<Longrightarrow> accessToStr m = strings_Join (accessToStr_accList m) '',''"
  by (simp add: accessToStr_def)

text \<open>
  C10. \<^verbatim>\<open>accessToStr\<close> never emits the cluster-level names. For a mask that has bits set,
  all of them cluster-level (CREATE-BUCKET, LIST-BUCKETS, ADMIN), the result is the empty
  string, not "No access" (which is the result for the zero mask only) and not those names.
  For any non-zero mask the string returned is the comma-separated list, in the order of the
  source, of the names of those of the fifteen tested object- and bucket-level bits that are
  set: RENAME-BUCKET is in that list exactly when its bit is set, EC and the cluster-level
  names never are, and neither the list nor the string depends on the bits of EC,
  CREATE-BUCKET, LIST-BUCKETS and ADMIN (they may be replaced by those of any \<open>u\<close>).
\<close>

theorem accessToStr_omits_cluster_bits:
  "(m \<noteq> 0 \<and> m AND NOT (AccessBckCreate OR AccessBckLIST OR AccessADMIN) = 0
      \<longrightarrow> accessToStr m = [])
  \<and> set (accessToStr_accList m) \<subseteq>
      {''GET'', ''HEAD-OBJECT'', ''PUT'', ''APPEND'', ''DOWNLOAD'', ''DELETE-OBJECT'',
       ''RENAME-OBJECT'', ''PROMOTE'', ''HEAD-BUCKET'', ''LIST-OBJECTS'', ''RENAME-BUCKET'',
       ''PATCH'', ''MAKE-NCOPIES'', ''SYNC-BUCKET'', ''DELETE-BUCKET''}
  \<and> ''EC'' \<notin> set (accessToStr_accList m)
  \<and> ''CREATE-BUCKET'' \<notin> set (accessToStr_accList m)
  \<and> ''LIST-BUCKETS'' \<notin> set (accessToStr_accList m)
  \<and> ''ADMIN'' \<notin> set (accessToStr_accList m)
  \<and> (''RENAME-BUCKET'' \<in> set (accessToStr_accList m) \<longleftrightarrow>
        m AND AccessBckRENAME = AccessBckRENAME)
  \<and> accessToStr_accList
       ((m AND NOT (AccessEC OR AccessBckCreate OR AccessBckLIST OR AccessADMIN))
         OR (u AND (AccessEC OR AccessBckCreate OR AccessBckLIST OR AccessADMIN)))
       = accessToStr_accList m
  \<and> (m = 0 \<longrightarrow> accessToStr m = ''No access'')
  \<and> (m \<noteq> 0 \<longrightarrow> accessToStr m = strings_Join (accessToStr_accList m) '','')
  \<and> (m \<noteq> 0 \<longrightarrow>
        accessToStr m =
          strings_Join
            (map snd (filter (\<lambda>(b, n). m AND b = b)
               [(AccessGET, ''GET''), (AccessObjHEAD, ''HEAD-OBJECT''), (AccessPUT, ''PUT''),
                (AccessAPPEND, ''APPEND''), (AccessDownload, ''DOWNLOAD''),
                (AccessObjDELETE, ''DELETE-OBJECT''), (AccessObjRENAME, ''RENAME-OBJECT''),
                (AccessPROMOTE, ''PROMOTE''), (AccessBckHEAD, ''HEAD-BUCKET''),
                (AccessObjLIST, ''LIST-OBJECTS''), (AccessBckRENAME, ''RENAME-BUCKET''),
                (AccessPATCH, ''PATCH''), (AccessMAKENCOPIES, ''MAKE-NCOPIES''),
                (AccessSYNC, ''SYNC-BUCKET''), (AccessBckDELETE, ''DELETE-BUCKET'')]))
            '','')
  \<and> (m \<noteq> 0
        \<and> (m AND NOT (AccessEC OR AccessBckCreate OR AccessBckLIST OR AccessADMIN))
             OR (u AND (AccessEC OR AccessBckCreate OR AccessBckLIST OR AccessADMIN)) \<noteq> 0
       \<longrightarrow> accessToStr
             ((m AND NOT (AccessEC OR AccessBckCreate OR AccessBckLIST OR AccessADMIN))
               OR (u AND (AccessEC OR AccessBckCreate OR AccessBckLIST OR AccessADMIN)))
           = accessToStr m)"
proof -
  have c1: "m \<noteq> 0 \<and> m AND NOT (AccessBckCreate OR AccessBckLIST OR AccessADMIN) = 0
      \<longrightarrow> accessToStr m = []"
    by (simp add: accessToStr_def cluster_only_accList clusterBits_def)
  have c2: "set (accessToStr_accList m) \<subseteq>
      {''GET'', ''HEAD-OBJECT'', ''PUT'', ''APPEND'', ''DOWNLOAD'', ''DELETE-OBJECT'',
       ''RENAME-OBJECT'', ''PROMOTE'', ''HEAD-BUCKET'', ''LIST-OBJECTS'', ''RENAME-BUCKET'',
       ''PATCH'', ''MAKE-NCOPIES'', ''SYNC-BUCKET'', ''DELETE-BUCKET''}"
  proof
    fix s assume "s \<in> set (accessToStr_accList m)"
    then show "s \<in> {''GET'', ''HEAD-OBJECT'', ''PUT'', ''APPEND'', ''DOWNLOAD'', ''DELETE-OBJECT'',
       ''RENAME-OBJECT'', ''PROMOTE'', ''HEAD-BUCKET'', ''LIST-OBJECTS'', ''RENAME-BUCKET'',
       ''PATCH'', ''MAKE-NCOPIES'', ''SYNC-BUCKET'', ''DELETE-BUCKET''}"
      unfolding in_set_accList by (elim disjE conjE; hypsubst; simp)
  qed
  have c3: "''EC'' \<notin> set (accessToStr_accList m)" by (simp add: in_set_accList)
  have c4: "''CREATE-BUCKET'' \<notin> set (accessToStr_accList m)" by (simp add: in_set_accList)
  have c5: "''LIST-BUCKETS'' \<notin> set (accessToStr_accList m)" by (simp add: in_set_accList)
  have c6: "''ADMIN'' \<notin> set (accessToStr_accList m)" by (simp add: in_set_accList)
  have c7: "''RENAME-BUCKET'' \<in> set (accessToStr_accList m) \<longleftrightarrow>
        m AND AccessBckRENAME = AccessBckRENAME"
    by (simp add: in_set_accList test_bit)
  have c8: "accessToStr_accList
       ((m AND NOT (AccessEC OR AccessBckCreate OR AccessBckLIST OR AccessADMIN))
         OR (u AND (AccessEC OR AccessBckCreate OR AccessBckLIST OR AccessADMIN)))
       = accessToStr_accList m"
    using accList_unchecked[of m u] by (simp only: uncheckedBits_def)
  have c9: "m = 0 \<longrightarrow> accessToStr m = ''No access''"
    by (simp add: accessToStr_def)
  have c10: "m \<noteq> 0 \<longrightarrow> accessToStr m = strings_Join (accessToStr_accList m) '',''"
    by (simp add: accessToStr_def)
  have c11: "m \<noteq> 0 \<longrightarrow>
        accessToStr m =
          strings_Join
            (map snd (filter (\<lambda>(b, n). m AND b = b)
               [(AccessGET, ''GET''), (AccessObjHEAD, ''HEAD-OBJECT''), (AccessPUT, ''PUT''),
                (AccessAPPEND, ''APPEND''), (AccessDownload, ''DOWNLOAD''),
                (AccessObjDELETE, ''DELETE-OBJECT''), (AccessObjRENAME, ''RENAME-OBJECT''),
                (AccessPROMOTE, ''PROMOTE''), (AccessBckHEAD, ''HEAD-BUCKET''),
                (AccessObjLIST, ''LIST-OBJECTS''), (AccessBckRENAME, ''RENAME-BUCKET''),
                (AccessPATCH, ''PATCH''), (AccessMAKENCOPIES, ''MAKE-NCOPIES''),
                (AccessSYNC, ''SYNC-BUCKET''), (AccessBckDELETE, ''DELETE-BUCKET'')]))
            '',''"
    using c10 by (simp only: accList_as_filter)
  have c12: "m \<noteq> 0
        \<and> (m AND NOT (AccessEC OR AccessBckCreate OR AccessBckLIST OR AccessADMIN))
             OR (u AND (AccessEC OR AccessBckCreate OR AccessBckLIST OR AccessADMIN)) \<noteq> 0
       \<longrightarrow> accessToStr
             ((m AND NOT (AccessEC OR AccessBckCreate OR AccessBckLIST OR AccessADMIN))
               OR (u AND (AccessEC OR AccessBckCreate OR AccessBckLIST OR AccessADMIN)))
           = accessToStr m"
  proof (intro impI, elim conjE)
    assume a: "m \<noteq> 0"
      and b: "(m AND NOT (AccessEC OR AccessBckCreate OR AccessBckLIST OR AccessADMIN))
             OR (u AND (AccessEC OR AccessBckCreate OR AccessBckLIST OR AccessADMIN)) \<noteq> 0"
    show "accessToStr
             ((m AND NOT (AccessEC OR AccessBckCreate OR AccessBckLIST OR AccessADMIN))
               OR (u AND (AccessEC OR AccessBckCreate OR AccessBckLIST OR AccessADMIN)))
           = accessToStr m"
      by (simp only: accessToStr_nonzero[OF a] accessToStr_nonzero[OF b] c8)
  qed
  from c1 c2 c3 c4 c5 c6 c7 c8 c9 c10 c11 c12 show ?thesis by (intro conjI)
qed

theorem accessToStr_omits_cluster_bits_witness:
  "AccessBckCreate OR AccessADMIN \<noteq> 0
   \<and> (AccessBckCreate OR AccessADMIN) AND NOT (AccessBckCreate OR AccessBckLIST OR AccessADMIN) = 0
   \<and> accessToStr (AccessBckCreate OR AccessADMIN) = []
   \<and> accessToStr 0 = ''No access''
   \<and> AccessGET OR AccessBckRENAME OR AccessEC OR AccessADMIN \<noteq> 0
   \<and> accessToStr (AccessGET OR AccessBckRENAME OR AccessEC OR AccessADMIN) = ''GET,RENAME-BUCKET''
   \<and> accessToStr (AccessGET OR AccessBckRENAME) = ''GET,RENAME-BUCKET''"
proof -
  let ?m = "AccessGET OR AccessBckRENAME OR AccessEC OR AccessADMIN"
  have h: "AccessBckCreate OR AccessADMIN \<noteq> 0
    \<and> (AccessBckCreate OR AccessADMIN) AND NOT (AccessBckCreate OR AccessBckLIST OR AccessADMIN) = 0"
    by (simp add: access_defs)
  have a: "accessToStr (AccessBckCreate OR AccessADMIN) = []"
    using accessToStr_omits_cluster_bits[of "AccessBckCreate OR AccessADMIN" 0] h by blast
  have z: "accessToStr 0 = ''No access''"
    using accessToStr_omits_cluster_bits[of 0 0] by blast
  have n: "?m \<noteq> 0" by (simp add: access_defs)
  have f: "map snd (filter (\<lambda>(b, n). ?m AND b = b)
               [(AccessGET, ''GET''), (AccessObjHEAD, ''HEAD-OBJECT''), (AccessPUT, ''PUT''),
                (AccessAPPEND, ''APPEND''), (AccessDownload, ''DOWNLOAD''),
                (AccessObjDELETE, ''DELETE-OBJECT''), (AccessObjRENAME, ''RENAME-OBJECT''),
                (AccessPROMOTE, ''PROMOTE''), (AccessBckHEAD, ''HEAD-BUCKET''),
                (AccessObjLIST, ''LIST-OBJECTS''), (AccessBckRENAME, ''RENAME-BUCKET''),
                (AccessPATCH, ''PATCH''), (AccessMAKENCOPIES, ''MAKE-NCOPIES''),
                (AccessSYNC, ''SYNC-BUCKET''), (AccessBckDELETE, ''DELETE-BUCKET'')])
           = [''GET'', ''RENAME-BUCKET'']"
    by (simp add: access_defs)
  have j: "strings_Join [''GET'', ''RENAME-BUCKET''] '','' = ''GET,RENAME-BUCKET''" by simp
  have b: "accessToStr ?m = ''GET,RENAME-BUCKET''"
    using accessToStr_omits_cluster_bits
            [of ?m 0, THEN conjunct2, THEN conjunct2, THEN conjunct2, THEN conjunct2, THEN conjunct2, THEN conjunct2, THEN conjunct2, THEN conjunct2, THEN conjunct2, THEN conjunct2, THEN conjunct1, THEN mp, OF n]
    by (simp only: f j)
  have r: "(?m AND NOT (AccessEC OR AccessBckCreate OR AccessBckLIST OR AccessADMIN))
             OR (0 AND (AccessEC OR AccessBckCreate OR AccessBckLIST OR AccessADMIN))
           = AccessGET OR AccessBckRENAME"
    by (simp add: access_defs)
  have r0: "AccessGET OR AccessBckRENAME \<noteq> 0" by (simp add: access_defs)
  have c: "accessToStr (AccessGET OR AccessBckRENAME) = ''GET,RENAME-BUCKET''"
    using accessToStr_omits_cluster_bits [of ?m 0, THEN conjunct2, THEN conjunct2, THEN conjunct2, THEN conjunct2, THEN conjunct2, THEN conjunct2, THEN conjunct2, THEN conjunct2, THEN conjunct2, THEN conjunct2, THEN conjunct2] n r0
    by (simp only: r b simp_thms)
  from h a z n b c show ?thesis by (intro conjI) (erule conjunct1 conjunct2 | assumption)+
qed


section \<open>Properties of the status probe\<close>

text \<open>
  C1. For every peer status that \<^verbatim>\<open>checkGlobStatus\<close> obtains (from the first health call, or
  from the retry after a first error when the local xaction was not aborted meanwhile) and
  decodes without error: if the peer's RebID is strictly greater than the local one, then
  \<^verbatim>\<open>abortAndBroadcast\<close> is invoked (once), so the local round is aborted and an abort
  broadcast goes out, and \<^verbatim>\<open>checkGlobStatus\<close> returns not-ok.
\<close>

theorem checkGlobStatus_newer_peer:
  assumes "health1 = Inr body \<or> ((\<exists>e. health1 = Inl e) \<and> \<not> abortedAfter \<and> health2 = Inr body)"
    and "unmarshal body = (peer, None)"
    and "RebID peer > rebID reb"
  shows "checkGlobStatus unmarshal health1 abortedAfter health2 desiredStage reb
           = (abortAndBroadcast reb, Some peer, False)
         \<and> xaborted (abortAndBroadcast reb)
         \<and> abortBcasts (abortAndBroadcast reb) = Suc (abortBcasts reb)"
  using assms by (auto simp: checkGlobStatus_def abortAndBroadcast_def)

theorem checkGlobStatus_newer_peer_witness:
  "((Inl ''timeout'' :: string + Status) = Inr ex_status
      \<or> ((\<exists>e. (Inl ''timeout'' :: string + Status) = Inl e) \<and> \<not> False
           \<and> (Inr ex_status :: string + Status) = Inr ex_status))
   \<and> ex_unmarshal ex_status = (ex_status, None)
   \<and> RebID ex_status > rebID ex_reb
   \<and> checkGlobStatus ex_unmarshal (Inl ''timeout'') False (Inr ex_status) 2 ex_reb
        = (abortAndBroadcast ex_reb, Some ex_status, False)"
proof -
  have h1: "(Inl ''timeout'' :: string + Status) = Inr ex_status
      \<or> ((\<exists>e. (Inl ''timeout'' :: string + Status) = Inl e) \<and> \<not> False
           \<and> (Inr ex_status :: string + Status) = Inr ex_status)"
    by simp
  have h2: "ex_unmarshal ex_status = (ex_status, None)" by (simp add: ex_unmarshal_def)
  have h3: "RebID ex_status > rebID ex_reb" by (simp add: ex_status_def ex_reb_def)
  from checkGlobStatus_newer_peer
         [where ?health1.0 = "Inl ''timeout''" and abortedAfter = False
            and ?health2.0 = "Inr ex_status" and body = ex_status
            and unmarshal = ex_unmarshal and peer = ex_status
            and reb = ex_reb and desiredStage = 2, OF h1 h2 h3]
       h1 h2 h3
  show ?thesis by blast
qed

text \<open>
  C2, as the spec states it: a round aborted because a peer reported a strictly newer RebID
  ends aborted without an outgoing abort broadcast. It fails: with local RebID 7 and a peer
  at RebID 8 the number of abort broadcasts sent goes from 0 to 1.
\<close>

theorem newer_peer_abort_without_broadcast_counterexample:
  "\<not> (abortBcasts (fst (checkGlobStatus ex_unmarshal
         (Inr \<lparr>Targets = [], SmapVersion = 4, RebVersion = 4, RebID = 8, Stage = 1,
               Aborted = False, Running = True, Quiescent = False\<rparr>)
         False
         (Inr \<lparr>Targets = [], SmapVersion = 4, RebVersion = 4, RebID = 8, Stage = 1,
               Aborted = False, Running = True, Quiescent = False\<rparr>)
         2 \<lparr>rebID = 7, xaborted = False, abortBcasts = 0\<rparr>))
       = abortBcasts \<lparr>rebID = 7, xaborted = False, abortBcasts = 0\<rparr>)"
  by (simp add: checkGlobStatus_def abortAndBroadcast_def ex_unmarshal_def)

text \<open>
  C2, amended: a round aborted because a peer reported a strictly newer RebID ends aborted
  and one abort broadcast is sent. The round ends aborted without an outgoing broadcast
  when the peer reports the same RebID with its Aborted flag set.
\<close>

theorem checkGlobStatus_abort_broadcast:
  assumes "health1 = Inr body \<or> ((\<exists>e. health1 = Inl e) \<and> \<not> abortedAfter \<and> health2 = Inr body)"
    and "unmarshal body = (peer, None)"
    and "checkGlobStatus unmarshal health1 abortedAfter health2 desiredStage reb = (reb', st', ok)"
  shows "(RebID peer > rebID reb \<longrightarrow>
            xaborted reb' \<and> abortBcasts reb' = Suc (abortBcasts reb) \<and> \<not> ok)
         \<and> (RebID peer = rebID reb \<and> Aborted peer \<longrightarrow>
            xaborted reb' \<and> abortBcasts reb' = abortBcasts reb \<and> \<not> ok)"
  using assms by (auto simp: checkGlobStatus_def abortAndBroadcast_def xreb_Abort_def)

theorem checkGlobStatus_abort_broadcast_witness:
  "xaborted (abortAndBroadcast ex_reb) \<and> abortBcasts (abortAndBroadcast ex_reb) = Suc (abortBcasts ex_reb)"
proof -
  have h1: "(Inr ex_status :: string + Status) = Inr ex_status
      \<or> ((\<exists>e. (Inr ex_status :: string + Status) = Inl e) \<and> \<not> False
           \<and> (Inr ex_status :: string + Status) = Inr ex_status)"
    by simp
  have h2: "ex_unmarshal ex_status = (ex_status, None)" by (simp add: ex_unmarshal_def)
  have h3: "checkGlobStatus ex_unmarshal (Inr ex_status) False (Inr ex_status) 2 ex_reb
              = (abortAndBroadcast ex_reb, Some ex_status, False)"
    by (simp add: checkGlobStatus_def ex_status_def ex_reb_def ex_unmarshal_def)
  have h4: "RebID ex_status > rebID ex_reb" by (simp add: ex_status_def ex_reb_def)
  from checkGlobStatus_abort_broadcast
         [where ?health1.0 = "Inr ex_status" and abortedAfter = False
            and ?health2.0 = "Inr ex_status" and body = ex_status
            and unmarshal = ex_unmarshal and peer = ex_status
            and reb = ex_reb and desiredStage = 2, OF h1 h2 h3]
       h4
  show ?thesis by blast
qed


section \<open>Properties of the handlers of the primary proxy\<close>

lemma emit_simps [simp]:
  "si (emit e p) = si p"
  "owner_smap (emit e p) = owner_smap p"
  "owner_rmd (emit e p) = owner_rmd p"
  "owner_bmd (emit e p) = owner_bmd p"
  "rmd_rebalance (emit e p) = rmd_rebalance p"
  "inPrimaryTransition (emit e p) = inPrimaryTransition p"
  "NodeStarted (emit e p) = NodeStarted p"
  "ClusterStarted (emit e p) = ClusterStarted p"
  "reg_pool (emit e p) = reg_pool p"
  "revokedTokens (emit e p) = revokedTokens p"
  "trace (emit e p) = trace p @ [e]"
  by (simp_all add: emit_def)

text \<open>
  C3. In \<^verbatim>\<open>_perfRebPost\<close>, the post phase of a node removal or of stopping maintenance: if
  the caller passed \<^verbatim>\<open>skipReb\<close>, nothing changes, whatever \<^verbatim>\<open>requiresRebalance\<close> says of
  the old and the new cluster map: the RMD is not modified and \<^verbatim>\<open>ctx.rmd\<close> stays as it was
  (nil); if \<^verbatim>\<open>skipReb\<close> was not passed and \<^verbatim>\<open>requiresRebalance\<close> returns true, the RMD is
  modified exactly once, its version goes up by one, and \<^verbatim>\<open>ctx.rmd\<close> is the new RMD.
\<close>

theorem perfRebPost_skipReb:
  "(skipReb ctx \<longrightarrow> perfRebPost x ctx clone p = (p, ctx))
   \<and> (\<not> skipReb ctx \<and> requiresRebalance x (smap ctx) clone \<longrightarrow>
        perfRebPost x ctx clone p =
          (p\<lparr>owner_rmd := rebMD_inc (owner_rmd p), trace := trace p @ [RmdModify]\<rparr>,
           ctx\<lparr>rmd := Some (rebMD_inc (owner_rmd p))\<rparr>)
        \<and> RMD_Version (owner_rmd (fst (perfRebPost x ctx clone p)))
            = RMD_Version (owner_rmd p) + 1)"
  by (simp add: perfRebPost_def rmd_modify_def emit_def rebMD_inc_def Let_def)

theorem perfRebPost_skipReb_witness:
  "perfRebPost ex_ext (smapModifier0\<lparr>skipReb := True\<rparr>) ex_smap ex_proxy
      = (ex_proxy, smapModifier0\<lparr>skipReb := True\<rparr>)
   \<and> RMD_Version (owner_rmd (fst (perfRebPost ex_ext smapModifier0 ex_smap ex_proxy))) = 6"
proof -
  have a: "skipReb (smapModifier0\<lparr>skipReb := True\<rparr>)" by simp
  have b: "\<not> skipReb smapModifier0 \<and> requiresRebalance ex_ext (smap smapModifier0) ex_smap"
    by (simp add: smapModifier0_def ex_ext_def)
  have c: "RMD_Version (owner_rmd ex_proxy) = 5" by (simp add: ex_proxy_def)
  from perfRebPost_skipReb [of "smapModifier0\<lparr>skipReb := True\<rparr>" ex_ext ex_smap ex_proxy]
       perfRebPost_skipReb [of smapModifier0 ex_ext ex_smap ex_proxy] a b c
  show ?thesis by (simp add: rebMD_inc_def)
qed

text \<open>
  The same at the level of the two callers of \<^verbatim>\<open>_perfRebPost\<close>: with \<^verbatim>\<open>skipReb\<close> passed,
  a node removal and a stop of maintenance leave the RMD as it is and call
  \<^verbatim>\<open>p.owner.rmd.modify\<close> at no point.
\<close>

lemma unregNode_skipReb:
  "unregNode x msg' node True p = (p', st, err) \<Longrightarrow>
     owner_rmd p' = owner_rmd p \<and> RmdModify \<notin> set (drop (length (trace p)) (trace p'))"
  by (auto simp: unregNode_def smap_modify_def unregNodePre_def perfRebPost_def syncFinal_def
       smapModifier0_def Let_def split: if_splits option.splits prod.splits)

lemma cancelMaintenance_skipReb:
  "cancelMaintenance x msg' daemonID True p = (p', rid, err) \<Longrightarrow>
     owner_rmd p' = owner_rmd p \<and> rid = 0
     \<and> RmdModify \<notin> set (drop (length (trace p)) (trace p'))"
  by (auto simp: cancelMaintenance_def smap_modify_def cancelMaintPre_def perfRebPost_def
       syncFinal_def smapModifier0_def Let_def split: if_splits option.splits prod.splits)

lemma callRetries_fields:
  "\<exists>evs. callRetries k i res node req p = p\<lparr>trace := trace p @ evs\<rparr>"
proof (induction k arbitrary: i p)
  case 0
  have "p = p\<lparr>trace := trace p @ []\<rparr>" by simp
  then show ?case by (metis callRetries.simps(1))
next
  case (Suc k)
  show ?case
  proof (cases "res i")
    case None
    then show ?thesis by (auto simp: emit_def Let_def)
  next
    case (Some er)
    from Suc.IH[of "Suc i" "emit (CallNode node req) p"]
    obtain evs where "callRetries k (Suc i) res node req (emit (CallNode node req) p)
        = (emit (CallNode node req) p)\<lparr>trace := trace (emit (CallNode node req) p) @ evs\<rparr>"
      by blast
    with Some show ?thesis by (auto simp: emit_def Let_def)
  qed
qed

lemma unregNodePre_not_started:
  assumes "GetNode clone (sid ctx) = Some node" and "isPrimary clone (si p)" and "\<not> NodeStarted p"
  shows "unregNodePre x ctx clone p = (p, ctx\<lparr>status := StatusServiceUnavailable\<rparr>, clone, None)"
  using assms by (simp add: unregNodePre_def Let_def)

lemma unregNode_not_started:
  assumes "GetNode (owner_smap p) (SnodeID node) = Some n" and "isPrimary (owner_smap p) (si p)"
    and "\<not> NodeStarted p"
  shows "\<exists>p'. unregNode x msg' node skipReb' p = (p', 503, None) \<and> owner_smap p' = owner_smap p"
  using assms
  by (auto simp: unregNode_def smap_modify_def unregNodePre_def perfRebPost_def syncFinal_def
        rmd_modify_def smapModifier0_def StatusServiceUnavailable_def Let_def
        split: option.splits prod.splits)


text \<open>
  C9. A removal of a node that is in the cluster map, processed by the primary before
  \<^verbatim>\<open>NodeStarted()\<close> is true: \<^verbatim>\<open>_unregNodePre\<close> returns no error and hands back the clone as
  it got it (neither \<^verbatim>\<open>delProxy\<close> nor \<^verbatim>\<open>delTarget\<close> runs, whatever they do), with status
  503 in the context; \<^verbatim>\<open>unregNode\<close> returns status 503 and a nil error; and \<^verbatim>\<open>httpcludel\<close>
  (not forwarded; an intra-cluster call comes from the node itself) writes no error reply,
  while the node is still in the installed cluster map. The map is keyed by the node's ID.
\<close>

theorem removal_before_NodeStarted:
  assumes "GetNode (owner_smap p) sid' = Some node" and "SnodeID node = sid'"
    and "isPrimary (owner_smap p) (si p)" and "\<not> NodeStarted p"
  shows "unregNodePre x (ctx\<lparr>sid := sid'\<rparr>) (owner_smap p) p
           = (p, ctx\<lparr>sid := sid', status := 503\<rparr>, owner_smap p, None)
         \<and> (\<exists>p'. unregNode x msg' node skipReb' p = (p', 503, None)
                 \<and> owner_smap p' = owner_smap p)
         \<and> (\<not> forwarded \<and> (intra \<longrightarrow> cid = sid') \<longrightarrow>
              (\<exists>p'. httpcludel x (Some sid') forwarded intra cid res p = (p', [])
                 \<and> owner_smap p' = owner_smap p
                 \<and> GetNode (owner_smap p') sid' = Some node))"
proof (intro conjI impI)
  show "unregNodePre x (ctx\<lparr>sid := sid'\<rparr>) (owner_smap p) p
           = (p, ctx\<lparr>sid := sid', status := 503\<rparr>, owner_smap p, None)"
    using assms by (simp add: unregNodePre_not_started StatusServiceUnavailable_def)
next
  show "\<exists>p'. unregNode x msg' node skipReb' p = (p', 503, None) \<and> owner_smap p' = owner_smap p"
    using assms by (simp add: unregNode_not_started)
next
  assume h: "\<not> forwarded \<and> (intra \<longrightarrow> cid = sid')"
  show "\<exists>p'. httpcludel x (Some sid') forwarded intra cid res p = (p', [])
                 \<and> owner_smap p' = owner_smap p
                 \<and> GetNode (owner_smap p') sid' = Some node"
  proof (cases intra)
    case True
    from unregNode_not_started[of p node node x "\<lparr>Action = ''self-initiated-removal''\<rparr>" False] assms
    obtain p' where "unregNode x \<lparr>Action = ''self-initiated-removal''\<rparr> node False p = (p', 503, None)"
      and "owner_smap p' = owner_smap p" by auto
    with True h assms show ?thesis by (simp add: httpcludel_def)
  next
    case False
    let ?req = "(if Action \<lparr>Action = testInitiatedRm\<rparr> = ActShutdownNode then ReqShutdown
                    else if Action \<lparr>Action = testInitiatedRm\<rparr> = ActStartMaintenance
                            \<or> Action \<lparr>Action = testInitiatedRm\<rparr> = ActDecommission
                            \<or> Action \<lparr>Action = testInitiatedRm\<rparr> = testInitiatedRm then ReqUnreg
                    else ReqNone)"
    obtain evs where c: "callRetries 2 0 res node ?req p = p\<lparr>trace := trace p @ evs\<rparr>"
      using callRetries_fields by blast
    let ?p1 = "p\<lparr>trace := trace p @ evs\<rparr>"
    from unregNode_not_started[of ?p1 node node x "\<lparr>Action = testInitiatedRm\<rparr>" False] assms
    obtain p' where u: "unregNode x \<lparr>Action = testInitiatedRm\<rparr> node False ?p1 = (p', 503, None)"
      and "owner_smap p' = owner_smap p" by auto
    with False h assms c show ?thesis
      by (simp add: httpcludel_def callRmSelf_def Let_def)
  qed
qed


lemma ex_lookup:
  "GetNode ex_smap ''t2'' = Some (ex_node ''t2'' Target)"
  "GetProxy ex_smap ''p2'' = Some (ex_node ''p2'' Proxy)"
  "GetProxy ex_smap ''p1'' = Some (ex_node ''p1'' Proxy)"
  "GetTarget ex_smap ''t1'' = Some (ex_node ''t1'' Target)"
  "isPrimary ex_smap (ex_node ''p1'' Proxy)"
  "SnodeID (ex_node i ty) = i"
  "IsProxy (ex_node i ty) = (ty = Proxy)"
  by (simp_all add: GetNode_def GetTarget_def GetProxy_def isPrimary_def ex_smap_def
        ex_node_def SnodeID_def IsProxy_def)

theorem removal_before_NodeStarted_witness:
  "GetNode (owner_smap (ex_proxy\<lparr>NodeStarted := False\<rparr>)) ''t2'' = Some (ex_node ''t2'' Target)
   \<and> isPrimary (owner_smap (ex_proxy\<lparr>NodeStarted := False\<rparr>)) (si (ex_proxy\<lparr>NodeStarted := False\<rparr>))
   \<and> \<not> NodeStarted (ex_proxy\<lparr>NodeStarted := False\<rparr>)
   \<and> snd (httpcludel ex_ext (Some ''t2'') False True ''t2'' (\<lambda>i. None)
             (ex_proxy\<lparr>NodeStarted := False\<rparr>)) = []
   \<and> GetNode (owner_smap (fst (httpcludel ex_ext (Some ''t2'') False True ''t2'' (\<lambda>i. None)
             (ex_proxy\<lparr>NodeStarted := False\<rparr>)))) ''t2'' = Some (ex_node ''t2'' Target)"
proof -
  let ?p = "ex_proxy\<lparr>NodeStarted := False\<rparr>"
  have a: "GetNode (owner_smap ?p) ''t2'' = Some (ex_node ''t2'' Target)"
    by (simp add: ex_proxy_def ex_lookup)
  have b: "SnodeID (ex_node ''t2'' Target) = ''t2''" by (simp add: ex_lookup)
  have c: "isPrimary (owner_smap ?p) (si ?p)" by (simp add: ex_proxy_def ex_lookup)
  have d: "\<not> NodeStarted ?p" by simp
  from removal_before_NodeStarted
         [OF a b c d, where forwarded = False and intra = True and cid = "''t2''"
            and x = ex_ext and res = "\<lambda>i. None"]
  have "\<exists>p'. httpcludel ex_ext (Some ''t2'') False True ''t2'' (\<lambda>i. None) ?p = (p', [])
             \<and> owner_smap p' = owner_smap ?p
             \<and> GetNode (owner_smap p') ''t2'' = Some (ex_node ''t2'' Target)"
    by blast
  with a c d show ?thesis by auto
qed

lemma firstError_mem: "firstError rs = Some (node, e) \<Longrightarrow> (node, Some e) \<in> set rs"
  by (induction rs rule: firstError.induct) auto

lemma firstError_ex: "(n0, Some e0) \<in> set rs \<Longrightarrow> \<exists>node e. firstError rs = Some (node, e)"
  by (induction rs rule: firstError.induct) auto

text \<open>
  C4. In \<^verbatim>\<open>cluSetPrimary\<close>, if some node returns an error in the prepare-phase broadcast,
  then whatever the other inputs are, the handler changes nothing of the proxy but the record
  of its calls: \<^verbatim>\<open>Smap.modify\<close> is not called, the cluster map and with it the Primary
  field are unchanged, \<^verbatim>\<open>inPrimaryTransition\<close> is never stored to, and
  \<^verbatim>\<open>metasyncer.becomeNonPrimary\<close> is not invoked; and when the handler gets as far as the
  broadcast (not forwarded, the new primary is a proxy of the map other than this one and
  not under maintenance), its only reply is the error that names a node that failed.
\<close>

theorem cluSetPrimary_prepare_error:
  assumes "(n0, Some e0) \<in> set prepare"
  shows "(\<exists>evs. fst (cluSetPrimary x item forwarded prepare commit p) = p\<lparr>trace := trace p @ evs\<rparr>
            \<and> SmapModify \<notin> set evs \<and> BecomeNonPrimary \<notin> set evs
            \<and> (\<forall>b. StoreInPrimaryTransition b \<notin> set evs))
         \<and> owner_smap (fst (cluSetPrimary x item forwarded prepare commit p)) = owner_smap p
         \<and> inPrimaryTransition (fst (cluSetPrimary x item forwarded prepare commit p))
             = inPrimaryTransition p
         \<and> (item = Some proxyid \<and> \<not> forwarded \<and> GetProxy (owner_smap p) proxyid = Some psi
              \<and> proxyid \<noteq> SnodeID (si p) \<and> \<not> PresentInMaint x (owner_smap p) psi \<longrightarrow>
             (\<exists>node e. (node, Some e) \<in> set prepare
                \<and> cluSetPrimary x item forwarded prepare commit p
                    = (emit (Bcast proxyid True) p,
                       [InvalMsg (ErrPreparePhase proxyid e node) None])))"
proof -
  from firstError_ex[OF assms] obtain node e where fe: "firstError prepare = Some (node, e)"
    by blast
  have mem: "(node, Some e) \<in> set prepare" using fe by (rule firstError_mem)
  have triv: "p = p\<lparr>trace := trace p @ []\<rparr>" by simp
  have frame: "\<exists>evs. fst (cluSetPrimary x item forwarded prepare commit p) = p\<lparr>trace := trace p @ evs\<rparr>
            \<and> SmapModify \<notin> set evs \<and> BecomeNonPrimary \<notin> set evs
            \<and> (\<forall>b. StoreInPrimaryTransition b \<notin> set evs)"
  proof -
    have "fst (cluSetPrimary x item forwarded prepare commit p) = p
          \<or> fst (cluSetPrimary x item forwarded prepare commit p) = emit AssertFailed p
          \<or> (\<exists>pid. fst (cluSetPrimary x item forwarded prepare commit p) = emit (Bcast pid True) p)"
      using fe by (auto simp add: cluSetPrimary_def Let_def split: option.splits)
    then consider (same) "fst (cluSetPrimary x item forwarded prepare commit p) = p"
      | (assert) "fst (cluSetPrimary x item forwarded prepare commit p) = emit AssertFailed p"
      | (bcast) pid where "fst (cluSetPrimary x item forwarded prepare commit p) = emit (Bcast pid True) p"
      by blast
    then show ?thesis
    proof cases
      case same
      then show ?thesis using triv by (intro exI[of _ "[]"]) simp
    next
      case assert
      then show ?thesis by (intro exI[of _ "[AssertFailed]"]) (simp add: emit_def)
    next
      case bcast
      then show ?thesis by (intro exI[of _ "[Bcast pid True]"]) (simp add: emit_def)
    qed
  qed
  then obtain evs where ev: "fst (cluSetPrimary x item forwarded prepare commit p) = p\<lparr>trace := trace p @ evs\<rparr>"
    by blast
  have reach: "item = Some proxyid \<and> \<not> forwarded \<and> GetProxy (owner_smap p) proxyid = Some psi
              \<and> proxyid \<noteq> SnodeID (si p) \<and> \<not> PresentInMaint x (owner_smap p) psi \<longrightarrow>
             (\<exists>node e. (node, Some e) \<in> set prepare
                \<and> cluSetPrimary x item forwarded prepare commit p
                    = (emit (Bcast proxyid True) p,
                       [InvalMsg (ErrPreparePhase proxyid e node) None]))"
    using fe mem by (auto simp: cluSetPrimary_def Let_def)
  from frame ev reach show ?thesis by simp
qed

theorem cluSetPrimary_prepare_error_witness:
  "(ex_node ''p2'' Proxy, Some ''500'')
      \<in> set [(ex_node ''t1'' Target, None), (ex_node ''p2'' Proxy, Some ''500'')]
   \<and> cluSetPrimary ex_ext (Some ''p2'') False
         [(ex_node ''t1'' Target, None), (ex_node ''p2'' Proxy, Some ''500'')] [] ex_proxy
       = (emit (Bcast ''p2'' True) ex_proxy,
          [InvalMsg (ErrPreparePhase ''p2'' ''500'' (ex_node ''p2'' Proxy)) None])
   \<and> owner_smap (fst (cluSetPrimary ex_ext (Some ''p2'') False
         [(ex_node ''t1'' Target, None), (ex_node ''p2'' Proxy, Some ''500'')] [] ex_proxy))
       = ex_smap"
proof -
  let ?prep = "[(ex_node ''t1'' Target, None), (ex_node ''p2'' Proxy, Some ''500'')]"
  have a: "(ex_node ''p2'' Proxy, Some ''500'') \<in> set ?prep" by simp
  have b: "Some ''p2'' = Some ''p2'' \<and> \<not> False
           \<and> GetProxy (owner_smap ex_proxy) ''p2'' = Some (ex_node ''p2'' Proxy)
           \<and> ''p2'' \<noteq> SnodeID (si ex_proxy)
           \<and> \<not> PresentInMaint ex_ext (owner_smap ex_proxy) (ex_node ''p2'' Proxy)"
    by (simp add: ex_proxy_def ex_lookup ex_ext_def)
  have c: "owner_smap ex_proxy = ex_smap" by (simp add: ex_proxy_def)
  from cluSetPrimary_prepare_error
         [OF a, where x = ex_ext and item = "Some ''p2''" and forwarded = False
            and commit = "[]" and p = ex_proxy and proxyid = "''p2''"
            and psi = "ex_node ''p2'' Proxy"] b c a
  show ?thesis by auto
qed

lemma addOrUpdateNode_same:
  assumes "Equals osi n"
  shows "addOrUpdateNode x n (Some osi) True p = (emit (HeardFrom (SnodeID n) False) p, False)"
  using assms by (simp add: addOrUpdateNode_def)

lemma handleJoinKalive_same:
  assumes "(if IsProxy n then GetProxy (owner_smap p) (SnodeID n)
            else GetTarget (owner_smap p) (SnodeID n)) = Some osi"
    and "Equals osi n"
  shows "handleJoinKalive x n regSmap tag True flags' p =
           (if isPrimary (owner_smap p) (si p)
            then (emit (HeardFrom (SnodeID n) False) p, owner_smap p, False, None)
            else (p, owner_smap p, False, Some (ErrNotPrimaryJoin tag n)))"
  using assms
  by (cases "IsProxy n") (simp_all add: handleJoinKalive_def Let_def addOrUpdateNode_same)

lemma httpclupost_locked_same:
  assumes "(if IsProxy (reg_SI regReq) then GetProxy (owner_smap p) (SnodeID (reg_SI regReq))
            else GetTarget (owner_smap p) (SnodeID (reg_SI regReq))) = Some osi"
    and "Equals osi (reg_SI regReq)"
  shows "\<exists>evs rr. fst (httpclupost_locked x regReq tag True ur sr msg' flags' p)
                    = p\<lparr>rmd_rebalance := rr, trace := trace p @ evs\<rparr>
           \<and> set evs \<subseteq> {HeardFrom (SnodeID (reg_SI regReq)) False}"
proof (cases "isPrimary (owner_smap p) (si p)")
  case True
  have "fst (httpclupost_locked x regReq tag True ur sr msg' flags' p)
          = p\<lparr>rmd_rebalance := (if \<not> IsProxy (reg_SI regReq) \<and> NodeStarted p \<and> \<not> rmd_rebalance p
                                 then reg_Reb regReq else rmd_rebalance p),
               trace := trace p @ [HeardFrom (SnodeID (reg_SI regReq)) False]\<rparr>"
    using True by (simp add: httpclupost_locked_def Let_def handleJoinKalive_same[OF assms] emit_def)
  then show ?thesis by (intro exI[of _ "[HeardFrom (SnodeID (reg_SI regReq)) False]"] exI) auto
next
  case False
  have "fst (httpclupost_locked x regReq tag True ur sr msg' flags' p)
          = p\<lparr>rmd_rebalance := (if \<not> IsProxy (reg_SI regReq) \<and> NodeStarted p \<and> \<not> rmd_rebalance p
                                 then reg_Reb regReq else rmd_rebalance p),
               trace := trace p @ []\<rparr>"
    using False by (simp add: httpclupost_locked_def Let_def handleJoinKalive_same[OF assms])
  then show ?thesis by (intro exI[of _ "[]"] exI) auto
qed


lemma httpclupost_keepalive_paths:
  assumes "rq_item rq = Some Keepalive" and "rq_body rq = Some body"
  shows "fst (httpclupost x rq p) = p
         \<or> (\<exists>m f. fst (httpclupost x rq p)
                = fst (httpclupost_locked x body ''keepalive'' True False False m f
                        (emit StatsAddPostCount p)))"
  using assms
  by (auto simp: httpclupost_def Let_def Keepalive_def UserRegister_def AutoRegister_def
           split: option.splits)

text \<open>
  C5. A keepalive for a node that is in the cluster map, in the map of its role, with an
  \<^verbatim>\<open>Snode\<close> equal to the one in the request: \<^verbatim>\<open>addOrUpdateNode\<close> returns false (after
  telling the keepalive tracker), \<^verbatim>\<open>handleJoinKalive\<close> on the primary reports
  \<^verbatim>\<open>update = false\<close> and no error, and \<^verbatim>\<open>httpclupost\<close> calls neither \<^verbatim>\<open>Smap.modify\<close> nor
  \<^verbatim>\<open>put\<close>: of the proxy only the rebalance flag of the RMD owner and the record of calls
  may change, the installed cluster map is the same, and so is its version after the same
  keepalive is processed a second time.
\<close>

theorem keepalive_unchanged_node:
  assumes "rq_item rq = Some Keepalive" and "rq_body rq = Some body"
    and "(if IsProxy (reg_SI body) then GetProxy (owner_smap p) (SnodeID (reg_SI body))
          else GetTarget (owner_smap p) (SnodeID (reg_SI body))) = Some osi"
    and "Equals osi (reg_SI body)"
  shows "addOrUpdateNode x (reg_SI body) (Some osi) True p
           = (emit (HeardFrom (SnodeID (reg_SI body)) False) p, False)
         \<and> (isPrimary (owner_smap p) (si p) \<longrightarrow>
              handleJoinKalive x (reg_SI body) (reg_Smap body) ''keepalive'' True flags' p
                = (emit (HeardFrom (SnodeID (reg_SI body)) False) p, owner_smap p, False, None))
         \<and> (\<exists>evs rr. fst (httpclupost x rq p) = p\<lparr>rmd_rebalance := rr, trace := trace p @ evs\<rparr>
                \<and> SmapModify \<notin> set evs \<and> SmapPut \<notin> set evs)
         \<and> owner_smap (fst (httpclupost x rq p)) = owner_smap p
         \<and> Version (owner_smap (fst (httpclupost x rq (fst (httpclupost x rq p)))))
              = Version (owner_smap p)"
proof -
  have frame: "\<exists>evs rr. fst (httpclupost x rq q) = q\<lparr>rmd_rebalance := rr, trace := trace q @ evs\<rparr>
                \<and> SmapModify \<notin> set evs \<and> SmapPut \<notin> set evs"
    if q: "owner_smap q = owner_smap p" for q
  proof -
    from httpclupost_keepalive_paths[OF assms(1,2), of x q]
    consider (same) "fst (httpclupost x rq q) = q"
      | (locked) m f where "fst (httpclupost x rq q)
                = fst (httpclupost_locked x body ''keepalive'' True False False m f
                        (emit StatsAddPostCount q))"
      by blast
    then show ?thesis
    proof cases
      case same
      have "q = q\<lparr>rmd_rebalance := rmd_rebalance q, trace := trace q @ []\<rparr>" by simp
      with same show ?thesis by (intro exI[of _ "[]"] exI[of _ "rmd_rebalance q"]) simp
    next
      case locked
      let ?q1 = "emit StatsAddPostCount q"
      have k3: "(if IsProxy (reg_SI body) then GetProxy (owner_smap ?q1) (SnodeID (reg_SI body))
          else GetTarget (owner_smap ?q1) (SnodeID (reg_SI body))) = Some osi"
        using assms(3) q by (simp split: if_splits)
      from httpclupost_locked_same[OF k3 assms(4), of x "''keepalive''" False False m f]
      obtain evs rr where e: "fst (httpclupost_locked x body ''keepalive'' True False False m f ?q1)
                    = ?q1\<lparr>rmd_rebalance := rr, trace := trace ?q1 @ evs\<rparr>"
        and s: "set evs \<subseteq> {HeardFrom (SnodeID (reg_SI body)) False}" by blast
      from e locked have "fst (httpclupost x rq q)
           = q\<lparr>rmd_rebalance := rr, trace := trace q @ (StatsAddPostCount # evs)\<rparr>"
        by (simp add: emit_def)
      moreover from s have "SmapModify \<notin> set (StatsAddPostCount # evs)
           \<and> SmapPut \<notin> set (StatsAddPostCount # evs)" by auto
      ultimately show ?thesis by blast
    qed
  qed
  from frame[of p] obtain evs rr where
    1: "fst (httpclupost x rq p) = p\<lparr>rmd_rebalance := rr, trace := trace p @ evs\<rparr>" by auto
  then have 2: "owner_smap (fst (httpclupost x rq p)) = owner_smap p" by simp
  from frame[OF 2] obtain evs' rr' where
    "fst (httpclupost x rq (fst (httpclupost x rq p)))
       = (fst (httpclupost x rq p))\<lparr>rmd_rebalance := rr',
            trace := trace (fst (httpclupost x rq p)) @ evs'\<rparr>" by auto
  then have 3: "owner_smap (fst (httpclupost x rq (fst (httpclupost x rq p)))) = owner_smap p"
    using 2 by simp
  show ?thesis
    using frame[of p] 2 3 handleJoinKalive_same[OF assms(3,4), of x "reg_Smap body" "''keepalive''" flags']
      addOrUpdateNode_same[OF assms(4), of x p]
    by simp
qed

theorem keepalive_unchanged_node_witness:
  "rq_item ex_keepalive = Some Keepalive
   \<and> Equals (ex_node ''t1'' Target) (ex_node ''t1'' Target)
   \<and> owner_smap (fst (httpclupost ex_ext ex_keepalive ex_proxy)) = ex_smap
   \<and> Version (owner_smap (fst (httpclupost ex_ext ex_keepalive
                                  (fst (httpclupost ex_ext ex_keepalive ex_proxy))))) = 3"
proof -
  let ?body = "\<lparr>reg_Smap = None, reg_BMD = None, reg_SI = ex_node ''t1'' Target,
                 reg_Reb = False\<rparr>"
  have a: "rq_item ex_keepalive = Some Keepalive" by (simp add: ex_keepalive_def Keepalive_def)
  have b: "rq_body ex_keepalive = Some ?body" by (simp add: ex_keepalive_def)
  have c: "(if IsProxy (reg_SI ?body) then GetProxy (owner_smap ex_proxy) (SnodeID (reg_SI ?body))
            else GetTarget (owner_smap ex_proxy) (SnodeID (reg_SI ?body)))
           = Some (ex_node ''t1'' Target)"
    by (simp add: ex_proxy_def ex_lookup)
  have d: "Equals (ex_node ''t1'' Target) (reg_SI ?body)" by (simp add: Equals_def)
  have e: "owner_smap ex_proxy = ex_smap" "Version ex_smap = 3"
    by (simp_all add: ex_proxy_def ex_smap_def)
  from keepalive_unchanged_node [OF a b c d, of ex_ext 0] a d e
  show ?thesis by simp
qed


section \<open>Properties of the directory promote\<close>

lemma walk_promotes_iff:
  assumes "confirmedFshare r"
  shows "promoteCalls (fst (walk x fqn False r)) \<noteq> promoteCalls r \<longleftrightarrow>
          (\<exists>objName tsi.
              PromotedObjDstName x fqn (SrcFQN (x_args r)) (ObjName (x_args r)) = Inr objName
            \<and> HrwName2T x (x_smap r) (MakeUname x (x_bck r) objName) = Inr tsi
            \<and> SnodeID tsi = x_SID r)"
  using assms by (auto simp: walk_def Let_def split: sum.splits option.splits)

lemma length_filter_key:
  assumes "distinct (map f rs)" and "k \<in> set (map f rs)"
  shows "length (filter (\<lambda>r. f r = k) rs) = 1"
  using assms
proof (induction rs)
  case Nil
  then show ?case by simp
next
  case (Cons a rs)
  show ?case
  proof (cases "f a = k")
    case True
    with Cons.prems have "\<forall>r\<in>set rs. f r \<noteq> k" by (auto simp: image_iff)
    then have "filter (\<lambda>r. f r = k) rs = []" by (simp add: filter_empty_conv)
    with True show ?thesis by simp
  next
    case False
    with Cons show ?thesis by auto
  qed
qed

text \<open>
  C6. During a directory-promote walk with file share confirmed, for a regular file: the
  target invokes \<^verbatim>\<open>Promote\<close> if and only if the promoted object name is computed and its HRW
  placement (\<^verbatim>\<open>HrwName2T\<close> over the cluster map the xaction holds) is this target itself; it
  then makes one call, for this file and object name; a file placed on another target is
  skipped with no error and no call. So, among targets with distinct IDs that walk the same
  file with the same arguments, bucket and cluster map, when the placement is one of them,
  exactly one invokes \<^verbatim>\<open>Promote\<close>.
\<close>

theorem walk_fshare_owner_only:
  "(confirmedFshare r \<longrightarrow>
       (promoteCalls (fst (walk x fqn False r)) \<noteq> promoteCalls r \<longleftrightarrow>
          (\<exists>objName tsi.
              PromotedObjDstName x fqn (SrcFQN (x_args r)) (ObjName (x_args r)) = Inr objName
            \<and> HrwName2T x (x_smap r) (MakeUname x (x_bck r) objName) = Inr tsi
            \<and> SnodeID tsi = x_SID r)))
   \<and> (confirmedFshare r
        \<and> PromotedObjDstName x fqn (SrcFQN (x_args r)) (ObjName (x_args r)) = Inr objName
        \<and> HrwName2T x (x_smap r) (MakeUname x (x_bck r) objName) = Inr tsi \<longrightarrow>
         (if SnodeID tsi = x_SID r
          then \<exists>params. promoteCalls (fst (walk x fqn False r)) = promoteCalls r @ [params]
                 \<and> SrcFQN (Args params) = fqn \<and> ObjName (Args params) = objName
          else walk x fqn False r = (r, None)))
   \<and> ((\<forall>t \<in> set ts. confirmedFshare t \<and> x_args t = a \<and> x_smap t = m \<and> x_bck t = b)
        \<and> distinct (map x_SID ts)
        \<and> PromotedObjDstName x fqn (SrcFQN a) (ObjName a) = Inr objName
        \<and> HrwName2T x m (MakeUname x b objName) = Inr tsi
        \<and> SnodeID tsi \<in> set (map x_SID ts) \<longrightarrow>
         length (filter (\<lambda>t. promoteCalls (fst (walk x fqn False t)) \<noteq> promoteCalls t) ts) = 1)"
proof (intro conjI impI)
  assume "confirmedFshare r"
  then show "promoteCalls (fst (walk x fqn False r)) \<noteq> promoteCalls r \<longleftrightarrow>
          (\<exists>objName tsi.
              PromotedObjDstName x fqn (SrcFQN (x_args r)) (ObjName (x_args r)) = Inr objName
            \<and> HrwName2T x (x_smap r) (MakeUname x (x_bck r) objName) = Inr tsi
            \<and> SnodeID tsi = x_SID r)"
    by (rule walk_promotes_iff)
next
  assume "confirmedFshare r
        \<and> PromotedObjDstName x fqn (SrcFQN (x_args r)) (ObjName (x_args r)) = Inr objName
        \<and> HrwName2T x (x_smap r) (MakeUname x (x_bck r) objName) = Inr tsi"
  then show "if SnodeID tsi = x_SID r
          then \<exists>params. promoteCalls (fst (walk x fqn False r)) = promoteCalls r @ [params]
                 \<and> SrcFQN (Args params) = fqn \<and> ObjName (Args params) = objName
          else walk x fqn False r = (r, None)"
    by (simp add: walk_def Let_def)
next
  assume h: "(\<forall>t \<in> set ts. confirmedFshare t \<and> x_args t = a \<and> x_smap t = m \<and> x_bck t = b)
        \<and> distinct (map x_SID ts)
        \<and> PromotedObjDstName x fqn (SrcFQN a) (ObjName a) = Inr objName
        \<and> HrwName2T x m (MakeUname x b objName) = Inr tsi
        \<and> SnodeID tsi \<in> set (map x_SID ts)"
  have "filter (\<lambda>t. promoteCalls (fst (walk x fqn False t)) \<noteq> promoteCalls t) ts
          = filter (\<lambda>t. x_SID t = SnodeID tsi) ts"
  proof (rule filter_cong[OF refl])
    fix t assume t: "t \<in> set ts"
    with h have c: "confirmedFshare t" and e: "x_args t = a" "x_smap t = m" "x_bck t = b" by auto
    from walk_promotes_iff[OF c, of x fqn] e h
    show "(promoteCalls (fst (walk x fqn False t)) \<noteq> promoteCalls t) = (x_SID t = SnodeID tsi)"
      by auto
  qed
  moreover from h have "length (filter (\<lambda>t. x_SID t = SnodeID tsi) ts) = 1"
    by (intro length_filter_key) auto
  ultimately show "length (filter (\<lambda>t. promoteCalls (fst (walk x fqn False t)) \<noteq> promoteCalls t) ts) = 1"
    by simp
qed

theorem walk_fshare_owner_only_witness:
  "confirmedFshare (ex_xact ''t2'')
   \<and> distinct (map x_SID [ex_xact ''t1'', ex_xact ''t2''])
   \<and> walk ex_xs_ext ''/srv/ingest/a'' False (ex_xact ''t2'') = (ex_xact ''t2'', None)
   \<and> promoteCalls (fst (walk ex_xs_ext ''/srv/ingest/a'' False (ex_xact ''t1'')))
        \<noteq> promoteCalls (ex_xact ''t1'')
   \<and> length (filter (\<lambda>t. promoteCalls (fst (walk ex_xs_ext ''/srv/ingest/a'' False t))
                             \<noteq> promoteCalls t)
               [ex_xact ''t1'', ex_xact ''t2'']) = 1"
proof -
  let ?f = "''/srv/ingest/a''"
  let ?t = "ex_node ''t1'' Target"
  have c: "confirmedFshare (ex_xact s)" for s by (simp add: ex_xact_def)
  have n: "PromotedObjDstName ex_xs_ext ?f (SrcFQN (x_args (ex_xact s))) (ObjName (x_args (ex_xact s)))
             = Inr ?f" for s
    by (simp add: ex_xs_ext_def)
  have h: "HrwName2T ex_xs_ext (x_smap (ex_xact s)) (MakeUname ex_xs_ext (x_bck (ex_xact s)) ?f)
             = Inr ?t" for s
    by (simp add: ex_xs_ext_def)
  have i: "SnodeID ?t = x_SID (ex_xact ''t1'')" "SnodeID ?t \<noteq> x_SID (ex_xact ''t2'')"
    by (simp_all add: ex_xact_def ex_lookup)
  have d: "distinct (map x_SID [ex_xact ''t1'', ex_xact ''t2''])"
    by (simp add: ex_xact_def)
  have all: "(\<forall>t \<in> set [ex_xact ''t1'', ex_xact ''t2''].
                 confirmedFshare t \<and> x_args t = ex_args \<and> x_smap t = ex_smap \<and> x_bck t = ''bck'')"
    by (simp add: ex_xact_def)
  have n': "PromotedObjDstName ex_xs_ext ?f (SrcFQN ex_args) (ObjName ex_args) = Inr ?f"
    by (simp add: ex_xs_ext_def)
  have h': "HrwName2T ex_xs_ext ex_smap (MakeUname ex_xs_ext ''bck'' ?f) = Inr ?t"
    by (simp add: ex_xs_ext_def)
  have m: "SnodeID ?t \<in> set (map x_SID [ex_xact ''t1'', ex_xact ''t2''])"
    by (simp add: ex_xact_def ex_lookup)
  note w2 = walk_fshare_owner_only
              [where r = "ex_xact ''t2''" and x = ex_xs_ext and fqn = ?f and objName = ?f
                 and tsi = ?t and ts = "[ex_xact ''t1'', ex_xact ''t2'']" and a = ex_args
                 and m = ex_smap and b = "''bck''"]
  note w1 = walk_fshare_owner_only
              [where r = "ex_xact ''t1''" and x = ex_xs_ext and fqn = ?f and objName = ?f
                 and tsi = ?t and ts = "[]" and a = ex_args and m = ex_smap and b = "''bck''"]
  from w2 c[of "''t2''"] n[of "''t2''"] h[of "''t2''"] i(2) all d n' h' m
  have r2: "walk ex_xs_ext ?f False (ex_xact ''t2'') = (ex_xact ''t2'', None)"
    and one: "length (filter (\<lambda>t. promoteCalls (fst (walk ex_xs_ext ?f False t)) \<noteq> promoteCalls t)
               [ex_xact ''t1'', ex_xact ''t2'']) = 1"
    by presburger+
  from w1 c[of "''t1''"] n[of "''t1''"] h[of "''t1''"] i(1)
  have r1: "promoteCalls (fst (walk ex_xs_ext ?f False (ex_xact ''t1'')))
              \<noteq> promoteCalls (ex_xact ''t1'')"
    by blast
  from c d r2 r1 one show ?thesis by blast
qed

end
